theory Spec2Isabelle
  imports Main
begin

section \<open>The entity layer of currentmember/common/service.py\<close>

text \<open>
  The development embeds the class \<open>Entity\<close> and the function \<open>route_helper\<close> of
  \<^verbatim>\<open>currentmember/common/service.py\<close>.

  \<^item> Python values (column values, ids, JSON leaves) are an arbitrary type \<open>'v\<close>.
  \<^item> A dict with string keys is a map \<open>string \<rightharpoonup> 'a\<close>; dict equality in Python ignores
    insertion order, as map equality does.
  \<^item> The three dicts an \<open>Entity\<close> receives are Python objects that the constructor mutates
    and that several entities may share, so they live in a heap and the entity holds their
    addresses.
  \<^item> The per-column transforms are lambdas; they are modelled as total functions
    \<open>'v \<Rightarrow> 'v\<close>.
  \<^item> Every \<^verbatim>\<open>raise\<close> is a value of the type \<open>'v error\<close>; an operation returns
    \<open>'v error + result\<close> together with the state it leaves behind.
  \<^item> The pymysql connection is not part of the repository: it is a parameter, a function
    from the state of the backing store, a statement and its bound values to either a failure
    or the next state and the cursor's content. Every statement handed to
    \<^verbatim>\<open>cur.execute\<close> is appended to a log, so that the statements an operation issues can
    be stated.
\<close>

subsection \<open>Exceptions and Python values returned by the operations\<close>

datatype 'v error =
    NotFound 'v string      \<comment> \<open>werkzeug \<open>NotFound\<close>, raised by \<open>get\<close>: the id and the table\<close>
  | KeyError string         \<comment> \<open>a dict subscript with an absent key\<close>
  | IndexError              \<comment> \<open>a row subscript out of range\<close>
  | AttributeError          \<comment> \<open>\<open>self.db\<close> is still \<open>None\<close>\<close>
  | TypeError               \<comment> \<open>\<open>jsonify\<close> on an object that is not JSON serialisable\<close>
  | Abort nat string        \<comment> \<open>flask \<open>abort(code, description)\<close>\<close>
  | StoreError string       \<comment> \<open>any exception of the backing store\<close>

type_synonym 'v pydict = "string \<rightharpoonup> 'v"

datatype 'v result =
    RNone                           \<comment> \<open>Python \<open>None\<close>\<close>
  | RRecord "'v pydict"             \<comment> \<open>the dict of \<open>_convert_to_dict\<close>\<close>
  | RList "'v pydict list"          \<comment> \<open>a list of such dicts\<close>
  | RMethodNotAllowed               \<comment> \<open>the object \<open>MethodNotAllowed()\<close>, returned, not raised\<close>

definition getitem :: "(string \<rightharpoonup> 'a) \<Rightarrow> string \<Rightarrow> 'v error + 'a" where
  "getitem m k = (case m k of None \<Rightarrow> Inl (KeyError k) | Some x \<Rightarrow> Inr x)"

subsection \<open>The heap of dict objects\<close>

type_synonym ref = nat

record 'v heap =
  name_dicts :: "ref \<Rightarrow> (string \<rightharpoonup> string)"
  fun_dicts :: "ref \<Rightarrow> (string \<rightharpoonup> ('v \<Rightarrow> 'v))"

text \<open>
  The default arguments \<^verbatim>\<open>read_transforms={}\<close>, \<^verbatim>\<open>write_transforms={}\<close> and
  \<^verbatim>\<open>exposed_column_names={}\<close> are three dict objects created once, when the
  \<^verbatim>\<open>def\<close> statement runs. They are empty in the heap of a freshly loaded module.
\<close>

definition default_exposed_column_names :: ref where
  "default_exposed_column_names = 0"

definition default_read_transforms :: ref where
  "default_read_transforms = 0"

definition default_write_transforms :: ref where
  "default_write_transforms = 1"

definition module_heap :: "'v heap" where
  "module_heap = \<lparr>name_dicts = (\<lambda>_. Map.empty), fun_dicts = (\<lambda>_. Map.empty)\<rparr>"

subsection \<open>The backing store\<close>

text \<open>
  Modelled from the spec: the backing store "exposes cursor(), a scoped executor supporting
  parameterized execute(sql, params), fetchone(), fetchall(), lastInsertId". The pymysql
  cursor is not in the repository. After \<open>execute\<close> it holds the rows of the answer and the
  id of the last inserted row.
\<close>

record 'v cursor =
  rows :: "'v list list"
  lastrowid :: 'v

definition fetchone :: "'v cursor \<Rightarrow> 'v list option" where
  "fetchone cur = (case rows cur of [] \<Rightarrow> None | r # _ \<Rightarrow> Some r)"


type_synonym ('v, 's) connection = "'s \<Rightarrow> string \<Rightarrow> 'v list \<Rightarrow> string + ('s \<times> 'v cursor)"

record ('v, 's) world =
  store :: 's
  issued :: "(string \<times> 'v list) list"

definition cur_execute ::
  "('v, 's) connection \<Rightarrow> string \<Rightarrow> 'v list \<Rightarrow> ('v, 's) world \<Rightarrow>
     ('v error + 'v cursor) \<times> ('v, 's) world" where
  "cur_execute conn sql params w =
     (let w' = w\<lparr>issued := issued w @ [(sql, params)]\<rparr>
      in case conn (store w) sql params of
           Inl msg \<Rightarrow> (Inl (StoreError msg), w')
         | Inr (s', cur) \<Rightarrow> (Inr cur, w'\<lparr>store := s'\<rparr>))"

subsection \<open>The class Entity\<close>

record ('v, 's) Entity =
  table :: string
  columns :: "string list"
  all_columns :: "string list"
  column_name2exposed_name :: ref
  read_transforms :: ref
  write_transforms :: ref
  db :: "('v, 's) connection option"
  allow_delete :: bool
  fields_str :: string   \<comment> \<open>\<open>self.fields\<close> (the name \<open>fields\<close> is taken by the record package)\<close>
  all_fields :: string

text \<open>Python's \<^verbatim>\<open>sep.join(xs)\<close> on a list of strings.\<close>

fun join :: "string \<Rightarrow> string list \<Rightarrow> string" where
  "join sep [] = []"
| "join sep [x] = x"
| "join sep (x # y # ys) = x @ sep @ join sep (y # ys)"

text \<open>
  The body of the loop \<^verbatim>\<open>for c in self.all_columns\<close> of \<open>__init__\<close>: three membership
  tests, each followed by an assignment into the dict object itself.
\<close>

definition fill_column :: "ref \<Rightarrow> ref \<Rightarrow> ref \<Rightarrow> string \<Rightarrow> 'v heap \<Rightarrow> 'v heap" where
  "fill_column en rt wt c h =
     (let h1 = (if name_dicts h en c = None
                then h\<lparr>name_dicts := (name_dicts h)(en := (name_dicts h en)(c \<mapsto> c))\<rparr>
                else h);
          h2 = (if fun_dicts h1 rt c = None
                then h1\<lparr>fun_dicts := (fun_dicts h1)(rt := (fun_dicts h1 rt)(c \<mapsto> (\<lambda>x. x)))\<rparr>
                else h1);
          h3 = (if fun_dicts h2 wt c = None
                then h2\<lparr>fun_dicts := (fun_dicts h2)(wt := (fun_dicts h2 wt)(c \<mapsto> (\<lambda>x. x)))\<rparr>
                else h2)
      in h3)"

fun fill_defaults :: "ref \<Rightarrow> ref \<Rightarrow> ref \<Rightarrow> string list \<Rightarrow> 'v heap \<Rightarrow> 'v heap" where
  "fill_defaults en rt wt [] h = h"
| "fill_defaults en rt wt (c # cs) h = fill_defaults en rt wt cs (fill_column en rt wt c h)"

text \<open>
  \<open>Entity.__init__\<close>. An optional argument is \<open>None\<close> when the caller leaves it out, and the
  default object is used then. The constructor has no \<^verbatim>\<open>raise\<close> and no failing
  operation on well-typed arguments: it is a total function that returns the new entity and
  the heap it leaves.
\<close>

definition Entity_init ::
  "string \<Rightarrow> string list \<Rightarrow> string list option \<Rightarrow> ref option \<Rightarrow> ref option \<Rightarrow> ref option \<Rightarrow>
     bool option \<Rightarrow> 'v heap \<Rightarrow> ('v, 's) Entity \<times> 'v heap" where
  "Entity_init tbl cols read_columns read_transforms_arg write_transforms_arg
       exposed_column_names allow_delete_arg h =
     (let rc = (case read_columns of None \<Rightarrow> [] | Some l \<Rightarrow> l);
          rt = (case read_transforms_arg of None \<Rightarrow> default_read_transforms | Some r \<Rightarrow> r);
          wt = (case write_transforms_arg of None \<Rightarrow> default_write_transforms | Some r \<Rightarrow> r);
          en = (case exposed_column_names of
                  None \<Rightarrow> default_exposed_column_names | Some r \<Rightarrow> r);
          ad = (case allow_delete_arg of None \<Rightarrow> True | Some b \<Rightarrow> b);
          ac = ''id'' # (cols @ rc)
      in (\<lparr>table = tbl, columns = cols, all_columns = ac, column_name2exposed_name = en,
           read_transforms = rt, write_transforms = wt, db = None, allow_delete = ad,
           fields_str = join '','' cols, all_fields = join '','' ac\<rparr>,
          fill_defaults en rt wt ac h))"

text \<open>
  \<open>_convert_to_row\<close>: the list comprehension over \<open>self.columns\<close>. In
  \<^verbatim>\<open>self.write_transforms[col](data[self.column_name2exposed_name[col]])\<close> Python evaluates
  the function expression first, then the argument.
\<close>

fun convert_to_row_loop ::
  "('v, 's) Entity \<Rightarrow> 'v heap \<Rightarrow> 'v pydict \<Rightarrow> string list \<Rightarrow> 'v error + 'v list" where
  "convert_to_row_loop e h data [] = Inr []"
| "convert_to_row_loop e h data (col # cols) =
     (case getitem (fun_dicts h (write_transforms e)) col of
        Inl err \<Rightarrow> Inl err
      | Inr f \<Rightarrow>
          (case getitem (name_dicts h (column_name2exposed_name e)) col of
             Inl err \<Rightarrow> Inl err
           | Inr k \<Rightarrow>
               (case getitem data k of
                  Inl err \<Rightarrow> Inl err
                | Inr x \<Rightarrow>
                    (case convert_to_row_loop e h data cols of
                       Inl err \<Rightarrow> Inl err
                     | Inr vs \<Rightarrow> Inr (f x # vs)))))"

definition convert_to_row :: "('v, 's) Entity \<Rightarrow> 'v heap \<Rightarrow> 'v pydict \<Rightarrow> 'v error + 'v list" where
  "convert_to_row e h data = convert_to_row_loop e h data (columns e)"

text \<open>
  \<open>_convert_to_dict\<close>: the dict comprehension over \<^verbatim>\<open>range(len(self.all_columns))\<close>. The
  key expression is evaluated before the value expression, and a key that comes again
  replaces the earlier entry. A row shorter than \<open>all_columns\<close> raises \<open>IndexError\<close>.
\<close>

fun convert_to_dict_loop ::
  "('v, 's) Entity \<Rightarrow> 'v heap \<Rightarrow> 'v list \<Rightarrow> nat list \<Rightarrow> 'v pydict \<Rightarrow> 'v error + 'v pydict" where
  "convert_to_dict_loop e h row [] acc = Inr acc"
| "convert_to_dict_loop e h row (i # idxs) acc =
     (case getitem (name_dicts h (column_name2exposed_name e)) (all_columns e ! i) of
        Inl err \<Rightarrow> Inl err
      | Inr k \<Rightarrow>
          (case getitem (fun_dicts h (read_transforms e)) (all_columns e ! i) of
             Inl err \<Rightarrow> Inl err
           | Inr f \<Rightarrow>
               if i < length row
               then convert_to_dict_loop e h row idxs (acc(k \<mapsto> f (row ! i)))
               else Inl IndexError))"

definition convert_to_dict :: "('v, 's) Entity \<Rightarrow> 'v heap \<Rightarrow> 'v list \<Rightarrow> 'v error + 'v pydict" where
  "convert_to_dict e h row =
     convert_to_dict_loop e h row [0..<length (all_columns e)] Map.empty"

text \<open>\<open>Entity.get\<close>.\<close>

definition get ::
  "('v, 's) Entity \<Rightarrow> 'v heap \<Rightarrow> 'v \<Rightarrow> ('v, 's) world \<Rightarrow> ('v error + 'v result) \<times> ('v, 's) world" where
  "get e h ident w =
     (case db e of
        None \<Rightarrow> (Inl AttributeError, w)
      | Some conn \<Rightarrow>
          (case cur_execute conn
                  (''SELECT '' @ all_fields e @ '' FROM '' @ table e @ '' WHERE id=%s'')
                  [ident] w of
             (Inl err, w') \<Rightarrow> (Inl err, w')
           | (Inr cur, w') \<Rightarrow>
               (case fetchone cur of
                  None \<Rightarrow> (Inl (NotFound ident (table e)), w')
                | Some item \<Rightarrow>
                    (case convert_to_dict e h item of
                       Inl err \<Rightarrow> (Inl err, w')
                     | Inr d \<Rightarrow> (Inr (RRecord d), w')))))"

text \<open>\<open>Entity.put\<close>: the cursor is taken first, then the row is encoded, then one UPDATE.\<close>

definition put ::
  "('v, 's) Entity \<Rightarrow> 'v heap \<Rightarrow> 'v pydict \<Rightarrow> 'v \<Rightarrow> ('v, 's) world \<Rightarrow>
     ('v error + 'v result) \<times> ('v, 's) world" where
  "put e h data ident w =
     (case db e of
        None \<Rightarrow> (Inl AttributeError, w)
      | Some conn \<Rightarrow>
          (case convert_to_row e h data of
             Inl err \<Rightarrow> (Inl err, w)
           | Inr vals \<Rightarrow>
               (let cols = join '','' (map (\<lambda>col. col @ ''=%s'') (columns e))
                in case cur_execute conn
                          (''UPDATE '' @ table e @ '' SET '' @ cols @ '' WHERE id=%s'')
                          (vals @ [ident]) w of
                     (Inl err, w') \<Rightarrow> (Inl err, w')
                   | (Inr cur, w') \<Rightarrow> (Inr RNone, w'))))"

text \<open>\<open>Entity.post\<close>: encode, one INSERT, then \<open>self.get(cur.lastrowid)\<close>.\<close>

definition post ::
  "('v, 's) Entity \<Rightarrow> 'v heap \<Rightarrow> 'v pydict \<Rightarrow> ('v, 's) world \<Rightarrow>
     ('v error + 'v result) \<times> ('v, 's) world" where
  "post e h data w =
     (case db e of
        None \<Rightarrow> (Inl AttributeError, w)
      | Some conn \<Rightarrow>
          (case convert_to_row e h data of
             Inl err \<Rightarrow> (Inl err, w)
           | Inr vals \<Rightarrow>
               (let cols = join '','' (map (\<lambda>col. ''%s'') (columns e))
                in case cur_execute conn
                          (''INSERT INTO '' @ table e @ '' ('' @ fields_str e @ '') VALUES(''
                             @ cols @ '')'')
                          vals w of
                     (Inl err, w') \<Rightarrow> (Inl err, w')
                   | (Inr cur, w') \<Rightarrow> get e h (lastrowid cur) w')))"

text \<open>
  \<open>Entity.delete\<close>: the test of \<open>allow_delete\<close> comes before the cursor is taken, and the
  \<open>MethodNotAllowed\<close> object is returned as a value.
\<close>

definition delete ::
  "('v, 's) Entity \<Rightarrow> 'v \<Rightarrow> ('v, 's) world \<Rightarrow> ('v error + 'v result) \<times> ('v, 's) world" where
  "delete e ident w =
     (if \<not> allow_delete e then (Inr RMethodNotAllowed, w)
      else
        (case db e of
           None \<Rightarrow> (Inl AttributeError, w)
         | Some conn \<Rightarrow>
             (case cur_execute conn
                     (''UPDATE '' @ table e @ '' SET deleted_at=CURRENT_TIMESTAMP WHERE id=%s'')
                     [ident] w of
                (Inl err, w') \<Rightarrow> (Inl err, w')
              | (Inr cur, w') \<Rightarrow> (Inr RNone, w'))))"





subsection \<open>The function route_helper\<close>

text \<open>
  The JSON body and the status code of a response. \<^verbatim>\<open>jsonify({"status": status})\<close> has
  no \<open>data\<close> member; a response built without an explicit code is a 200.
\<close>

record 'v response =
  status_code :: nat
  body_status :: string
  body_data :: "'v result option"

text \<open>
  The wrapped function \<open>f\<close>, with the route's arguments already supplied. The flag
  \<^verbatim>\<open>json=True\<close> means that \<open>f\<close> takes the parsed request body first: that is the
  constructor \<open>WithBody\<close>; \<^verbatim>\<open>json=False\<close> is \<open>NoBody\<close>.
\<close>

datatype ('v, 's) handler =
    NoBody "('v, 's) world \<Rightarrow> ('v error + 'v result) \<times> ('v, 's) world"
  | WithBody "'v pydict \<Rightarrow> ('v, 's) world \<Rightarrow> ('v error + 'v result) \<times> ('v, 's) world"

text \<open>
  The wrapper that \<open>route_helper\<close> returns. \<open>request_json\<close> is the value of
  \<^verbatim>\<open>request.get_json()\<close>. \<open>NotFound\<close> becomes the 404 response; every other exception is
  printed and raised again. \<open>jsonify\<close> raises \<open>TypeError\<close> on the \<open>MethodNotAllowed\<close> object,
  which is not JSON serialisable.
\<close>

definition route_helper ::
  "('v, 's) handler \<Rightarrow> string \<Rightarrow> 'v pydict option \<Rightarrow> ('v, 's) world \<Rightarrow>
     ('v error + 'v response) \<times> ('v, 's) world" where
  "route_helper f status request_json w =
     (case (case f of
              WithBody g \<Rightarrow>
                (case request_json of
                   None \<Rightarrow> Inl (Abort 400 ''missing json'')
                 | Some data \<Rightarrow> Inr (g data))
            | NoBody g \<Rightarrow> Inr g) of
        Inl err \<Rightarrow> (Inl err, w)
      | Inr call \<Rightarrow>
          (case call w of
             (Inl (NotFound i t), w') \<Rightarrow>
               (Inr \<lparr>status_code = 404, body_status = ''not found'', body_data = None\<rparr>, w')
           | (Inl err, w') \<Rightarrow> (Inl err, w')
           | (Inr RNone, w') \<Rightarrow>
               (Inr \<lparr>status_code = 200, body_status = status, body_data = None\<rparr>, w')
           | (Inr RMethodNotAllowed, w') \<Rightarrow> (Inl TypeError, w')
           | (Inr res, w') \<Rightarrow>
               (Inr \<lparr>status_code = 200, body_status = status, body_data = Some res\<rparr>, w')))"

subsection \<open>Notions used to state the properties\<close>

text \<open>The entries of an entity's three dicts, read through the heap.\<close>

definition exposed_name :: "('v, 's) Entity \<Rightarrow> 'v heap \<Rightarrow> string \<Rightarrow> string" where
  "exposed_name e h c = the (name_dicts h (column_name2exposed_name e) c)"

definition read_transform :: "('v, 's) Entity \<Rightarrow> 'v heap \<Rightarrow> string \<Rightarrow> 'v \<Rightarrow> 'v" where
  "read_transform e h c = the (fun_dicts h (read_transforms e) c)"

definition write_transform :: "('v, 's) Entity \<Rightarrow> 'v heap \<Rightarrow> string \<Rightarrow> 'v \<Rightarrow> 'v" where
  "write_transform e h c = the (fun_dicts h (write_transforms e) c)"

text \<open>
  The layout every constructed entity has: \<open>all_columns\<close> is \<open>id\<close>, then \<open>columns\<close>, then the
  read-only columns. The entity does not keep \<open>read_columns\<close>; they are the rest of
  \<open>all_columns\<close>.
\<close>

definition read_columns_of :: "('v, 's) Entity \<Rightarrow> string list" where
  "read_columns_of e = drop (Suc (length (columns e))) (all_columns e)"

definition layout :: "('v, 's) Entity \<Rightarrow> bool" where
  "layout e = (all_columns e = ''id'' # (columns e @ read_columns_of e))"

text \<open>
  Every column of \<open>all_columns\<close> has an entry in each of the three dicts: what the loop of the
  constructor establishes.
\<close>

definition filled :: "('v, 's) Entity \<Rightarrow> 'v heap \<Rightarrow> bool" where
  "filled e h =
     list_all (\<lambda>c. name_dicts h (column_name2exposed_name e) c \<noteq> None
                 \<and> fun_dicts h (read_transforms e) c \<noteq> None
                 \<and> fun_dicts h (write_transforms e) c \<noteq> None) (all_columns e)"

text \<open>All read and write transforms of the entity's columns are the identity.\<close>

definition identity_transforms :: "('v, 's) Entity \<Rightarrow> 'v heap \<Rightarrow> bool" where
  "identity_transforms e h =
     list_all (\<lambda>c. fun_dicts h (read_transforms e) c = Some (\<lambda>x. x)
                 \<and> fun_dicts h (write_transforms e) c = Some (\<lambda>x. x)) (all_columns e)"

text \<open>
  The decoder as the specification words it: zip \<open>allColumns\<close> with the row, apply the
  column's read transform to the raw value, and store the result under the column's exposed
  name. A dict built from a list of pairs keeps the last value of a repeated key.
\<close>

definition dict_of_pairs :: "(string \<times> 'a) list \<Rightarrow> (string \<rightharpoonup> 'a)" where
  "dict_of_pairs ps = map_of (rev ps)"

definition decode_spec ::
  "(string \<Rightarrow> string) \<Rightarrow> (string \<Rightarrow> 'v \<Rightarrow> 'v) \<Rightarrow> string list \<Rightarrow> 'v list \<Rightarrow> 'v pydict" where
  "decode_spec exposedName readTransform allColumns row =
     dict_of_pairs (map (\<lambda>(col, raw). (exposedName col, readTransform col raw))
                        (zip allColumns row))"

text \<open>
  The encoder as the specification words it: one value per writable column, the record's
  field under the exposed name, through the column's write transform.
\<close>

definition encode_spec ::
  "(string \<Rightarrow> string) \<Rightarrow> (string \<Rightarrow> 'v \<Rightarrow> 'v) \<Rightarrow> string list \<Rightarrow> 'v pydict \<Rightarrow> 'v list" where
  "encode_spec exposedName writeTransform writableColumns r =
     map (\<lambda>col. writeTransform col (the (r (exposedName col)))) writableColumns"

text \<open>
  An outcome that is a client error 400 or 422: such a response, or an \<open>abort\<close> with such a
  code.
\<close>

fun client_error_400_422 :: "'v error + 'v response \<Rightarrow> bool" where
  "client_error_400_422 (Inr r) = (status_code r = 400 \<or> status_code r = 422)"
| "client_error_400_422 (Inl (Abort c m)) = (c = 400 \<or> c = 422)"
| "client_error_400_422 (Inl _) = False"

subsection \<open>Fixtures\<close>

text \<open>Values for the examples: the leaves of a JSON document.\<close>

datatype pyval = PNone | PInt int | PStr string

text \<open>A store without rows: every statement succeeds and matches nothing.\<close>

definition empty_store :: "(pyval, unit) connection" where
  "empty_store s sql params = Inr (s, \<lparr>rows = [], lastrowid = PInt 0\<rparr>)"


definition world0 :: "(pyval, unit) world" where
  "world0 = \<lparr>store = (), issued = []\<rparr>"

text \<open>
  \<^verbatim>\<open>Entity("membership_group", ["name", "title"], read_columns=["created_at", "deleted_at"])\<close>
  built in a freshly loaded module, and the heap after it; \<open>bind_db\<close> is the assignment
  \<^verbatim>\<open>entity.db = db\<close> that the service makes afterwards.
\<close>

definition group_entity :: "(pyval, unit) Entity" where
  "group_entity =
     fst (Entity_init ''membership_group'' [''name'', ''title'']
            (Some [''created_at'', ''deleted_at'']) None None None None
            (module_heap :: pyval heap))"

definition group_heap :: "pyval heap" where
  "group_heap =
     snd (Entity_init ''membership_group'' [''name'', ''title'']
            (Some [''created_at'', ''deleted_at'']) None None None None
            module_heap :: (pyval, unit) Entity \<times> pyval heap)"

definition bind_db :: "('v, 's) connection \<Rightarrow> ('v, 's) Entity \<Rightarrow> ('v, 's) Entity" where
  "bind_db conn e = e\<lparr>db := Some conn\<rparr>"

text \<open>
  A store without rows that keeps every statement it is handed: its state is the list of the
  statements and bound values received so far. The group entity bound to it, and the world in
  which nothing has happened yet.
\<close>

definition recording_store :: "(pyval, (string \<times> pyval list) list) connection" where
  "recording_store s sql params = Inr (s @ [(sql, params)], \<lparr>rows = [], lastrowid = PInt 0\<rparr>)"

definition logged_group_entity :: "(pyval, (string \<times> pyval list) list) Entity" where
  "logged_group_entity =
     bind_db recording_store
       (fst (Entity_init ''membership_group'' [''name'', ''title'']
               (Some [''created_at'', ''deleted_at'']) None None None None
               (module_heap :: pyval heap)))"

definition logged_world0 :: "(pyval, (string \<times> pyval list) list) world" where
  "logged_world0 = \<lparr>store = [], issued = []\<rparr>"

section \<open>Properties\<close>

subsection \<open>The constructor's loop in closed form\<close>

lemma name_dicts_fill_column:
  "name_dicts (fill_column en rt wt c h) r k =
     (if r = en \<and> k = c \<and> name_dicts h r k = None then Some k else name_dicts h r k)"
  by (auto simp: fill_column_def Let_def)

lemma fun_dicts_fill_column:
  "fun_dicts (fill_column en rt wt c h) r k =
     (if (r = rt \<or> r = wt) \<and> k = c \<and> fun_dicts h r k = None then Some (\<lambda>x. x)
      else fun_dicts h r k)"
  by (auto simp: fill_column_def Let_def)

lemma name_dicts_fill_defaults:
  "name_dicts (fill_defaults en rt wt cs h) r k =
     (if r = en \<and> k \<in> set cs \<and> name_dicts h r k = None then Some k else name_dicts h r k)"
proof (induction cs arbitrary: h)
  case Nil
  show ?case by simp
next
  case (Cons c cs)
  show ?case
    by (simp only: fill_defaults.simps Cons.IH name_dicts_fill_column) auto
qed

lemma fun_dicts_fill_defaults:
  "fun_dicts (fill_defaults en rt wt cs h) r k =
     (if (r = rt \<or> r = wt) \<and> k \<in> set cs \<and> fun_dicts h r k = None then Some (\<lambda>x. x)
      else fun_dicts h r k)"
proof (induction cs arbitrary: h)
  case Nil
  show ?case by simp
next
  case (Cons c cs)
  show ?case
    by (simp only: fill_defaults.simps Cons.IH fun_dicts_fill_column) auto
qed

subsection \<open>The constructed entity and the fixtures\<close>

lemma Entity_init_fields:
  "table (fst (Entity_init tbl cols rc rt wt en ad h)) = tbl"
  "columns (fst (Entity_init tbl cols rc rt wt en ad h)) = cols"
  "all_columns (fst (Entity_init tbl cols rc rt wt en ad h)) =
     ''id'' # (cols @ (case rc of None \<Rightarrow> [] | Some l \<Rightarrow> l))"
  "column_name2exposed_name (fst (Entity_init tbl cols rc rt wt en ad h)) =
     (case en of None \<Rightarrow> default_exposed_column_names | Some r \<Rightarrow> r)"
  "read_transforms (fst (Entity_init tbl cols rc rt wt en ad h)) =
     (case rt of None \<Rightarrow> default_read_transforms | Some r \<Rightarrow> r)"
  "write_transforms (fst (Entity_init tbl cols rc rt wt en ad h)) =
     (case wt of None \<Rightarrow> default_write_transforms | Some r \<Rightarrow> r)"
  "db (fst (Entity_init tbl cols rc rt wt en ad h)) = None"
  "allow_delete (fst (Entity_init tbl cols rc rt wt en ad h)) =
     (case ad of None \<Rightarrow> True | Some b \<Rightarrow> b)"
  "fields_str (fst (Entity_init tbl cols rc rt wt en ad h)) = join '','' cols"
  "all_fields (fst (Entity_init tbl cols rc rt wt en ad h)) =
     join '','' (''id'' # (cols @ (case rc of None \<Rightarrow> [] | Some l \<Rightarrow> l)))"
  by (simp_all add: Entity_init_def Let_def)

lemma Entity_init_snd:
  "snd (Entity_init tbl cols rc rt wt en ad h) =
     fill_defaults (case en of None \<Rightarrow> default_exposed_column_names | Some r \<Rightarrow> r)
       (case rt of None \<Rightarrow> default_read_transforms | Some r \<Rightarrow> r)
       (case wt of None \<Rightarrow> default_write_transforms | Some r \<Rightarrow> r)
       (''id'' # (cols @ (case rc of None \<Rightarrow> [] | Some l \<Rightarrow> l))) h"
  by (simp add: Entity_init_def Let_def)

lemma Entity_init_layout: "layout (fst (Entity_init tbl cols rc rt wt en ad h))"
  by (simp add: Entity_init_fields layout_def read_columns_of_def)



lemma filled_fill_defaults:
  "filled e (fill_defaults (column_name2exposed_name e) (read_transforms e) (write_transforms e)
       (all_columns e) h)"
  by (simp add: filled_def list_all_iff name_dicts_fill_defaults fun_dicts_fill_defaults)

lemma Entity_init_filled:
  "filled (fst (Entity_init tbl cols rc rt wt en ad h)) (snd (Entity_init tbl cols rc rt wt en ad h))"
  using filled_fill_defaults [of "fst (Entity_init tbl cols rc rt wt en ad h)" h]
  by (simp only: Entity_init_snd Entity_init_fields)


lemma group_entity_simps:
  "table group_entity = ''membership_group''"
  "columns group_entity = [''name'', ''title'']"
  "all_columns group_entity = [''id'', ''name'', ''title'', ''created_at'', ''deleted_at'']"
  "column_name2exposed_name group_entity = 0"
  "read_transforms group_entity = 0"
  "write_transforms group_entity = 1"
  "allow_delete group_entity = True"
  "db group_entity = None"
  "fields_str group_entity = ''name,title''"
  "all_fields group_entity = ''id,name,title,created_at,deleted_at''"
  by (simp_all add: group_entity_def Entity_init_fields default_exposed_column_names_def
      default_read_transforms_def default_write_transforms_def)

lemma group_heap_names:
  "name_dicts group_heap r k =
     (if r = 0 \<and> k \<in> set [''id'', ''name'', ''title'', ''created_at'', ''deleted_at'']
      then Some k else None)"
  by (simp add: group_heap_def Entity_init_snd name_dicts_fill_defaults
      module_heap_def default_exposed_column_names_def del: fill_defaults.simps)

lemma group_heap_funs:
  "fun_dicts group_heap r k =
     (if (r = 0 \<or> r = 1) \<and> k \<in> set [''id'', ''name'', ''title'', ''created_at'', ''deleted_at'']
      then Some (\<lambda>x. x) else None)"
  by (simp add: group_heap_def Entity_init_snd fun_dicts_fill_defaults
      module_heap_def default_read_transforms_def default_write_transforms_def
      del: fill_defaults.simps)

subsection \<open>The row codec against its specification\<close>

lemma filled_names:
  "filled e h \<Longrightarrow> c \<in> set (all_columns e) \<Longrightarrow>
     name_dicts h (column_name2exposed_name e) c = Some (exposed_name e h c)"
  by (auto simp: filled_def list_all_iff exposed_name_def)

lemma filled_reads:
  "filled e h \<Longrightarrow> c \<in> set (all_columns e) \<Longrightarrow>
     fun_dicts h (read_transforms e) c = Some (read_transform e h c)"
  by (auto simp: filled_def list_all_iff read_transform_def)

lemma filled_writes:
  "filled e h \<Longrightarrow> c \<in> set (all_columns e) \<Longrightarrow>
     fun_dicts h (write_transforms e) c = Some (write_transform e h c)"
  by (auto simp: filled_def list_all_iff write_transform_def)

lemma layout_columns: "layout e \<Longrightarrow> c \<in> set (columns e) \<Longrightarrow> c \<in> set (all_columns e)"
proof -
  assume l: "layout e" and c: "c \<in> set (columns e)"
  have "all_columns e = ''id'' # (columns e @ read_columns_of e)"
    using l by (simp add: layout_def)
  then have "set (all_columns e) = insert ''id'' (set (columns e) \<union> set (read_columns_of e))"
    by (metis list.simps(15) set_append)
  with c show ?thesis by simp
qed

lemma dict_of_pairs_Cons:
  "acc ++ dict_of_pairs ((k, v) # ps) = (acc(k \<mapsto> v)) ++ dict_of_pairs ps"
  by (rule ext) (simp add: dict_of_pairs_def map_add_def split: option.splits)

lemma convert_to_dict_loop_upt:
  assumes f: "filled e h" and len: "length (all_columns e) \<le> length row"
  shows "i \<le> length (all_columns e) \<Longrightarrow>
     convert_to_dict_loop e h row [i..<length (all_columns e)] acc =
       Inr (acc ++ dict_of_pairs
              (map (\<lambda>(col, raw). (exposed_name e h col, read_transform e h col raw))
                   (zip (drop i (all_columns e)) (drop i row))))"
proof (induction "length (all_columns e) - i" arbitrary: i acc)
  case 0
  then have "i = length (all_columns e)" by simp
  then show ?case by (simp add: dict_of_pairs_def)
next
  case (Suc d)
  then have lt: "i < length (all_columns e)" by simp
  then have mem: "all_columns e ! i \<in> set (all_columns e)" by simp
  have lr: "i < length row" using lt len by simp
  have d: "d = length (all_columns e) - Suc i" using Suc.hyps(2) by simp
  have s: "Suc i \<le> length (all_columns e)" using lt by simp
  have up: "[i..<length (all_columns e)] = i # [Suc i..<length (all_columns e)]"
    using lt by (simp add: upt_conv_Cons)
  have dc: "drop i (all_columns e) = all_columns e ! i # drop (Suc i) (all_columns e)"
    using lt by (simp add: Cons_nth_drop_Suc)
  have dr: "drop i row = row ! i # drop (Suc i) row"
    using lr by (simp add: Cons_nth_drop_Suc)
  show ?case
    by (simp only: up convert_to_dict_loop.simps getitem_def
        filled_names [OF f mem] filled_reads [OF f mem] option.case sum.case lr if_True
        Suc.hyps(1) [OF d s] dc dr zip_Cons_Cons list.map prod.case dict_of_pairs_Cons)
qed

lemma convert_to_dict_decode_spec:
  "filled e h \<Longrightarrow> length (all_columns e) \<le> length row \<Longrightarrow>
     convert_to_dict e h row =
       Inr (decode_spec (exposed_name e h) (read_transform e h) (all_columns e) row)"
  by (simp add: convert_to_dict_def convert_to_dict_loop_upt decode_spec_def)

lemma convert_to_row_loop_eq:
  assumes "\<And>c. c \<in> set cols \<Longrightarrow>
      name_dicts h (column_name2exposed_name e) c = Some (exposed_name e h c)
    \<and> fun_dicts h (write_transforms e) c = Some (write_transform e h c)"
  shows "convert_to_row_loop e h r cols =
     (case find (\<lambda>c. r (exposed_name e h c) = None) cols of
        None \<Rightarrow> Inr (encode_spec (exposed_name e h) (write_transform e h) cols r)
      | Some c \<Rightarrow> Inl (KeyError (exposed_name e h c)))"
  using assms
proof (induction cols)
  case Nil
  show ?case by (simp add: encode_spec_def)
next
  case (Cons c cs)
  have c: "name_dicts h (column_name2exposed_name e) c = Some (exposed_name e h c)"
    "fun_dicts h (write_transforms e) c = Some (write_transform e h c)"
    using Cons.prems [of c] by simp_all
  have ih: "convert_to_row_loop e h r cs =
     (case find (\<lambda>c. r (exposed_name e h c) = None) cs of
        None \<Rightarrow> Inr (encode_spec (exposed_name e h) (write_transform e h) cs r)
      | Some c \<Rightarrow> Inl (KeyError (exposed_name e h c)))"
    using Cons.IH Cons.prems by simp
  show ?case
    by (cases "r (exposed_name e h c)")
       (simp_all add: getitem_def c ih encode_spec_def split: option.splits)
qed

lemma convert_to_row_eq:
  assumes "layout e" and "filled e h"
  shows "convert_to_row e h r =
     (case find (\<lambda>c. r (exposed_name e h c) = None) (columns e) of
        None \<Rightarrow> Inr (encode_spec (exposed_name e h) (write_transform e h) (columns e) r)
      | Some c \<Rightarrow> Inl (KeyError (exposed_name e h c)))"
  unfolding convert_to_row_def
  by (rule convert_to_row_loop_eq)
     (simp add: filled_names [OF assms(2)] filled_writes [OF assms(2)]
        layout_columns [OF assms(1)])


lemma dict_of_pairs_last:
  "dict_of_pairs (ps @ [(k, v)]) k = Some v"
  by (simp add: dict_of_pairs_def)

lemma dict_of_pairs_append_notin:
  "k \<notin> fst ` set qs \<Longrightarrow> dict_of_pairs (ps @ qs) k = dict_of_pairs ps k"
  by (simp add: dict_of_pairs_def map_add_def map_of_eq_None_iff split: option.splits)
     (metis map_of_eq_None_iff option.distinct(1) set_rev)

lemma dict_of_pairs_const:
  "k \<in> fst ` set ps \<Longrightarrow> (\<And>v'. (k, v') \<in> set ps \<Longrightarrow> v' = v) \<Longrightarrow> dict_of_pairs ps k = Some v"
proof -
  assume k: "k \<in> fst ` set ps" and v: "\<And>v'. (k, v') \<in> set ps \<Longrightarrow> v' = v"
  from k have "map_of (rev ps) k \<noteq> None" by (simp add: map_of_eq_None_iff)
  then obtain y where y: "map_of (rev ps) k = Some y" by blast
  then have "(k, y) \<in> set ps" using map_of_SomeD by fastforce
  with v y show ?thesis by (simp add: dict_of_pairs_def)
qed

lemma dict_of_pairs_append_in:
  "k \<in> fst ` set qs \<Longrightarrow> dict_of_pairs (ps @ qs) k = dict_of_pairs qs k"
proof -
  assume "k \<in> fst ` set qs"
  then have "map_of (rev qs) k \<noteq> None" by (simp add: map_of_eq_None_iff)
  then show ?thesis
    by (auto simp: dict_of_pairs_def map_add_def split: option.splits)
qed

lemma zip_map_same: "zip xs (map f xs) = map (\<lambda>x. (x, f x)) xs"
  by (induction xs) simp_all

lemma convert_to_row_loop_all_columns:
  "convert_to_row_loop (e\<lparr>all_columns := ac\<rparr>) h r cols = convert_to_row_loop e h r cols"
  by (induction cols) (simp_all cong: sum.case_cong)

lemma decode_spec_nth:
  assumes d: "distinct (map en cols)" and len: "length row = length cols" and i: "i < length cols"
  shows "decode_spec en rd cols row (en (cols ! i)) = Some (rd (cols ! i) (row ! i))"
proof -
  let ?ps = "map (\<lambda>(col, raw). (en col, rd col raw)) (zip cols row)"
  have fs: "map fst ?ps = map en cols"
    using len by (induction cols row rule: list_induct2') simp_all
  have "map fst (rev ?ps) = rev (map en cols)"
    by (simp only: rev_map [symmetric] fs)
  then have "distinct (map fst (rev ?ps))"
    using d by (simp only: distinct_rev)
  moreover have "(en (cols ! i), rd (cols ! i) (row ! i)) \<in> set (rev ?ps)"
  proof -
    have "(cols ! i, row ! i) \<in> set (zip cols row)"
      using i len by (metis in_set_zip fst_conv snd_conv)
    then show ?thesis by force
  qed
  ultimately show ?thesis
    unfolding decode_spec_def dict_of_pairs_def by (rule map_of_is_SomeI)
qed

subsection \<open>Construction\<close>

text \<open>
  C8 (the part that holds, with the failure replaced by what the constructor does): for every
  constructed entity, \<open>all_columns\<close> is \<open>id\<close> first, then the writable columns in their given
  order, then the read-only columns in their given order (none when the argument is left
  out). The constructor has no check for repeated column names and never fails: the lists
  are kept as given.
\<close>

theorem C8_all_columns_order:
  "all_columns (fst (Entity_init tbl cols (Some read_columns) rt wt en ad h)) =
     ''id'' # cols @ read_columns
   \<and> all_columns (fst (Entity_init tbl cols None rt wt en ad h)) = ''id'' # cols"
  by (simp add: Entity_init_fields)

text \<open>
  C8 as stated fails: a column name that is both in the writable and in the read-only list
  does not make the construction fail. \<^verbatim>\<open>Entity("t", ["a"], read_columns=["a"])\<close>
  returns an entity, and its \<open>all_columns\<close> holds \<open>a\<close> twice.
\<close>

theorem C8_duplicate_columns_accepted:
  "all_columns (fst (Entity_init ''t'' [''a''] (Some [''a'']) None None None None
      (module_heap :: pyval heap) :: (pyval, unit) Entity \<times> pyval heap))
   = [''id'', ''a'', ''a'']"
  by (simp add: Entity_init_fields)

text \<open>
  C10: the constructor writes into the dict objects it receives. After the construction each
  of the three dicts holds its old entries and, for every column of \<open>all_columns\<close> that had
  none, the default one (the column's own name, the identity). The entity holds the very
  objects it was given (the default objects for an argument left out), and every other dict
  of the heap is unchanged. When the three arguments are left out, the dicts are the shared default objects: a second entity constructed with the
  defaults holds the same three objects, and they still have an entry for every column of
  the first entity.
\<close>

theorem C10_constructor_fills_shared_dicts:
  fixes h :: "'v heap" and e1 e2 :: "('v, 's) Entity"
  assumes "Entity_init tbl1 cols1 rc1 rt wt en ad1 h = (e1, h1)"
    and "Entity_init tbl2 cols2 rc2 None None None ad2 h1 = (e2, h2)"
  shows "(\<forall>k. name_dicts h1 (column_name2exposed_name e1) k =
            (if k \<in> set (all_columns e1) \<and> name_dicts h (column_name2exposed_name e1) k = None
             then Some k else name_dicts h (column_name2exposed_name e1) k))
       \<and> (\<forall>k. fun_dicts h1 (read_transforms e1) k =
            (if k \<in> set (all_columns e1) \<and> fun_dicts h (read_transforms e1) k = None
             then Some (\<lambda>x. x) else fun_dicts h (read_transforms e1) k))
       \<and> (\<forall>k. fun_dicts h1 (write_transforms e1) k =
            (if k \<in> set (all_columns e1) \<and> fun_dicts h (write_transforms e1) k = None
             then Some (\<lambda>x. x) else fun_dicts h (write_transforms e1) k))
       \<and> column_name2exposed_name e1 =
            (case en of None \<Rightarrow> default_exposed_column_names | Some r \<Rightarrow> r)
       \<and> read_transforms e1 = (case rt of None \<Rightarrow> default_read_transforms | Some r \<Rightarrow> r)
       \<and> write_transforms e1 = (case wt of None \<Rightarrow> default_write_transforms | Some r \<Rightarrow> r)
       \<and> (\<forall>r. r \<noteq> column_name2exposed_name e1 \<longrightarrow> name_dicts h1 r = name_dicts h r)
       \<and> (\<forall>r. r \<noteq> read_transforms e1 \<and> r \<noteq> write_transforms e1 \<longrightarrow>
              fun_dicts h1 r = fun_dicts h r)
       \<and> (rt = None \<and> wt = None \<and> en = None \<longrightarrow>
            column_name2exposed_name e2 = column_name2exposed_name e1
          \<and> read_transforms e2 = read_transforms e1
          \<and> write_transforms e2 = write_transforms e1
          \<and> (\<forall>k \<in> set (all_columns e1).
                name_dicts h2 (column_name2exposed_name e2) k \<noteq> None
              \<and> fun_dicts h2 (read_transforms e2) k \<noteq> None
              \<and> fun_dicts h2 (write_transforms e2) k \<noteq> None))"
proof -
  have e1: "e1 = fst (Entity_init tbl1 cols1 rc1 rt wt en ad1 h)"
    and h1: "h1 = snd (Entity_init tbl1 cols1 rc1 rt wt en ad1 h :: ('v, 's) Entity \<times> 'v heap)"
    by (simp_all add: assms(1))
  have e2: "e2 = fst (Entity_init tbl2 cols2 rc2 None None None ad2 h1)"
    and h2: "h2 = snd (Entity_init tbl2 cols2 rc2 None None None ad2 h1 :: ('v, 's) Entity \<times> 'v heap)"
    by (simp_all add: assms(2))
  have n1: "\<And>r k. name_dicts h1 r k =
      (if r = column_name2exposed_name e1 \<and> k \<in> set (all_columns e1) \<and> name_dicts h r k = None
       then Some k else name_dicts h r k)"
    by (simp add: h1 e1 Entity_init_snd Entity_init_fields name_dicts_fill_defaults
        del: fill_defaults.simps)
  have f1: "\<And>r k. fun_dicts h1 r k =
      (if (r = read_transforms e1 \<or> r = write_transforms e1) \<and> k \<in> set (all_columns e1)
           \<and> fun_dicts h r k = None
       then Some (\<lambda>x. x) else fun_dicts h r k)"
    by (simp add: h1 e1 Entity_init_snd Entity_init_fields fun_dicts_fill_defaults
        del: fill_defaults.simps)
  have n2: "\<And>r k. name_dicts h1 r k \<noteq> None \<Longrightarrow> name_dicts h2 r k \<noteq> None"
    by (simp add: h2 Entity_init_snd name_dicts_fill_defaults del: fill_defaults.simps)
  have f2: "\<And>r k. fun_dicts h1 r k \<noteq> None \<Longrightarrow> fun_dicts h2 r k \<noteq> None"
    by (simp add: h2 Entity_init_snd fun_dicts_fill_defaults del: fill_defaults.simps)
  have A: "\<forall>k. name_dicts h1 (column_name2exposed_name e1) k =
            (if k \<in> set (all_columns e1) \<and> name_dicts h (column_name2exposed_name e1) k = None
             then Some k else name_dicts h (column_name2exposed_name e1) k)"
    by (simp add: n1)
  have B: "\<forall>k. fun_dicts h1 (read_transforms e1) k =
            (if k \<in> set (all_columns e1) \<and> fun_dicts h (read_transforms e1) k = None
             then Some (\<lambda>x. x) else fun_dicts h (read_transforms e1) k)"
    by (simp add: f1)
  have C: "\<forall>k. fun_dicts h1 (write_transforms e1) k =
            (if k \<in> set (all_columns e1) \<and> fun_dicts h (write_transforms e1) k = None
             then Some (\<lambda>x. x) else fun_dicts h (write_transforms e1) k)"
    by (simp add: f1)
  have D: "rt = None \<and> wt = None \<and> en = None \<longrightarrow>
            column_name2exposed_name e2 = column_name2exposed_name e1
          \<and> read_transforms e2 = read_transforms e1
          \<and> write_transforms e2 = write_transforms e1
          \<and> (\<forall>k \<in> set (all_columns e1).
                name_dicts h2 (column_name2exposed_name e2) k \<noteq> None
              \<and> fun_dicts h2 (read_transforms e2) k \<noteq> None
              \<and> fun_dicts h2 (write_transforms e2) k \<noteq> None)"
  proof (intro impI)
    assume d: "rt = None \<and> wt = None \<and> en = None"
    have r1: "column_name2exposed_name e2 = column_name2exposed_name e1"
      and r2: "read_transforms e2 = read_transforms e1"
      and r3: "write_transforms e2 = write_transforms e1"
      using d by (simp_all add: e1 e2 Entity_init_fields)
    have "\<forall>k \<in> set (all_columns e1).
                name_dicts h2 (column_name2exposed_name e2) k \<noteq> None
              \<and> fun_dicts h2 (read_transforms e2) k \<noteq> None
              \<and> fun_dicts h2 (write_transforms e2) k \<noteq> None"
    proof
      fix k assume k: "k \<in> set (all_columns e1)"
      have "name_dicts h1 (column_name2exposed_name e1) k \<noteq> None" using k by (simp add: n1)
      moreover have "fun_dicts h1 (read_transforms e1) k \<noteq> None" using k by (simp add: f1)
      moreover have "fun_dicts h1 (write_transforms e1) k \<noteq> None" using k by (simp add: f1)
      ultimately show "name_dicts h2 (column_name2exposed_name e2) k \<noteq> None
              \<and> fun_dicts h2 (read_transforms e2) k \<noteq> None
              \<and> fun_dicts h2 (write_transforms e2) k \<noteq> None"
        using n2 f2 by (simp add: r1 r2 r3)
    qed
    with r1 r2 r3 show "column_name2exposed_name e2 = column_name2exposed_name e1
          \<and> read_transforms e2 = read_transforms e1
          \<and> write_transforms e2 = write_transforms e1
          \<and> (\<forall>k \<in> set (all_columns e1).
                name_dicts h2 (column_name2exposed_name e2) k \<noteq> None
              \<and> fun_dicts h2 (read_transforms e2) k \<noteq> None
              \<and> fun_dicts h2 (write_transforms e2) k \<noteq> None)" by simp
  qed
  have E: "column_name2exposed_name e1 =
            (case en of None \<Rightarrow> default_exposed_column_names | Some r \<Rightarrow> r)
       \<and> read_transforms e1 = (case rt of None \<Rightarrow> default_read_transforms | Some r \<Rightarrow> r)
       \<and> write_transforms e1 = (case wt of None \<Rightarrow> default_write_transforms | Some r \<Rightarrow> r)"
    by (simp add: e1 Entity_init_fields)
  have F: "\<forall>r. r \<noteq> column_name2exposed_name e1 \<longrightarrow> name_dicts h1 r = name_dicts h r"
    by (auto simp: n1)
  have G: "\<forall>r. r \<noteq> read_transforms e1 \<and> r \<noteq> write_transforms e1 \<longrightarrow>
              fun_dicts h1 r = fun_dicts h r"
    by (auto simp: f1)
  from A B C D E F G show ?thesis by blast
qed

text \<open>
  The witness: after \<open>group_entity\<close>, an entity over the single column \<open>x\<close> is constructed
  with the defaults. Its exposed-name dict has an entry for \<open>title\<close>, which is no column of
  it and was absent from the dict when the module was loaded.
\<close>

theorem C10_constructor_fills_shared_dicts_witness:
  "name_dicts (snd (Entity_init ''t'' [''x''] None None None None None group_heap
                  :: (pyval, unit) Entity \<times> pyval heap))
      (column_name2exposed_name (fst (Entity_init ''t'' [''x''] None None None None None group_heap
                  :: (pyval, unit) Entity \<times> pyval heap))) ''title'' = Some ''title''
   \<and> ''title'' \<notin> set (all_columns (fst (Entity_init ''t'' [''x''] None None None None None group_heap
                  :: (pyval, unit) Entity \<times> pyval heap)))
   \<and> name_dicts (module_heap :: pyval heap) default_exposed_column_names ''title'' = None"
proof -
  let ?p2 = "Entity_init ''t'' [''x''] None None None None None group_heap
               :: (pyval, unit) Entity \<times> pyval heap"
  have a1: "Entity_init ''membership_group'' [''name'', ''title'']
            (Some [''created_at'', ''deleted_at'']) None None None None
            (module_heap :: pyval heap) = (group_entity, group_heap)"
    by (simp add: group_entity_def group_heap_def)
  have a2: "?p2 = (fst ?p2, snd ?p2)" by simp
  have t: "''title'' \<in> set (all_columns group_entity)"
    by (simp add: group_entity_simps)
  from C10_constructor_fills_shared_dicts [OF a1 a2] t
  have "name_dicts (snd ?p2) (column_name2exposed_name (fst ?p2)) ''title'' \<noteq> None"
    by blast
  moreover have "name_dicts (snd ?p2) (column_name2exposed_name (fst ?p2)) ''title''
      = name_dicts group_heap 0 ''title''"
    by (simp add: Entity_init_snd Entity_init_fields name_dicts_fill_defaults
        default_exposed_column_names_def del: fill_defaults.simps)
  ultimately show ?thesis
    by (simp add: group_heap_names Entity_init_fields module_heap_def)
qed

subsection \<open>The row codec\<close>

lemma group_filled: "filled group_entity group_heap"
  unfolding group_entity_def group_heap_def by (rule Entity_init_filled)

lemma group_layout: "layout group_entity"
  unfolding group_entity_def by (rule Entity_init_layout)

lemma group_exposed:
  "exposed_name group_entity group_heap ''id'' = ''id''"
  "exposed_name group_entity group_heap ''name'' = ''name''"
  "exposed_name group_entity group_heap ''title'' = ''title''"
  "exposed_name group_entity group_heap ''created_at'' = ''created_at''"
  "exposed_name group_entity group_heap ''deleted_at'' = ''deleted_at''"
  by (simp_all add: exposed_name_def group_entity_simps group_heap_names)

lemma group_transforms:
  "k \<in> set [''id'', ''name'', ''title'', ''created_at'', ''deleted_at''] \<Longrightarrow>
     read_transform group_entity group_heap k = (\<lambda>x. x)"
  "k \<in> set [''id'', ''name'', ''title'', ''created_at'', ''deleted_at''] \<Longrightarrow>
     write_transform group_entity group_heap k = (\<lambda>x. x)"
  by (simp_all add: read_transform_def write_transform_def group_entity_simps group_heap_funs)

lemma group_identity: "identity_transforms group_entity group_heap"
  by (simp add: identity_transforms_def group_entity_simps group_heap_funs)

text \<open>
  C6: for every row as long as \<open>all_columns\<close> (on an entity whose dicts the constructor has
  filled), \<open>_convert_to_dict\<close> returns the dict of the specification's decoder: the columns
  are paired with the row by position, the column's read transform is applied to the raw
  value, and the result is stored under the column's exposed name. When the exposed names are
  pairwise distinct, the entry under the exposed name of the \<open>i\<close>-th column is the read
  transform of the \<open>i\<close>-th raw value.
\<close>

theorem C6_decode_zips_transforms_then_renames:
  assumes "filled e h" and "length row = length (all_columns e)"
  shows "convert_to_dict e h row =
           Inr (decode_spec (exposed_name e h) (read_transform e h) (all_columns e) row)
       \<and> (distinct (map (exposed_name e h) (all_columns e)) \<longrightarrow>
            (\<forall>i < length (all_columns e).
               decode_spec (exposed_name e h) (read_transform e h) (all_columns e) row
                   (exposed_name e h (all_columns e ! i))
                 = Some (read_transform e h (all_columns e ! i) (row ! i))))"
  using assms by (simp add: convert_to_dict_decode_spec decode_spec_nth)

text \<open>The witness: a row of the group entity; the entry \<open>name\<close> is the second raw value.\<close>

theorem C6_decode_zips_transforms_then_renames_witness:
  "convert_to_dict group_entity group_heap
       [PInt 7, PStr ''admins'', PStr ''Admins'', PInt 100, PNone]
     = Inr (decode_spec (exposed_name group_entity group_heap)
              (read_transform group_entity group_heap) (all_columns group_entity)
              [PInt 7, PStr ''admins'', PStr ''Admins'', PInt 100, PNone])
   \<and> decode_spec (exposed_name group_entity group_heap)
          (read_transform group_entity group_heap) (all_columns group_entity)
          [PInt 7, PStr ''admins'', PStr ''Admins'', PInt 100, PNone] ''name''
       = Some (PStr ''admins'')"
proof -
  let ?row = "[PInt 7, PStr ''admins'', PStr ''Admins'', PInt 100, PNone]"
  have len: "length ?row = length (all_columns group_entity)"
    by (simp add: group_entity_simps)
  have dist: "distinct (map (exposed_name group_entity group_heap) (all_columns group_entity))"
    by (simp add: group_entity_simps group_exposed)
  have i: "(1::nat) < length (all_columns group_entity)"
    by (simp add: group_entity_simps)
  from C6_decode_zips_transforms_then_renames [OF group_filled len] dist i
  have "convert_to_dict group_entity group_heap ?row
     = Inr (decode_spec (exposed_name group_entity group_heap)
              (read_transform group_entity group_heap) (all_columns group_entity) ?row)"
    and "decode_spec (exposed_name group_entity group_heap)
              (read_transform group_entity group_heap) (all_columns group_entity) ?row
              (exposed_name group_entity group_heap (all_columns group_entity ! 1))
         = Some (read_transform group_entity group_heap (all_columns group_entity ! 1) (?row ! 1))"
    by blast+
  then show ?thesis
    by (simp add: group_entity_simps group_exposed group_transforms)
qed

text \<open>
  C7: \<open>_convert_to_row\<close> on a constructed entity. When the record has the exposed field of
  every writable column, the result is the specification's encoding: one value per writable
  column, in the order of \<open>columns\<close>, the record's field under the exposed name through the
  column's write transform. When a field is missing, the result is the \<open>KeyError\<close> of the
  first writable column whose exposed field is absent. The result does not depend on
  \<open>all_columns\<close>: \<open>id\<close> and the read-only columns contribute nothing.
\<close>

theorem C7_encode_writable_columns_in_order:
  assumes "layout e" and "filled e h"
  shows "(list_all (\<lambda>c. r (exposed_name e h c) \<noteq> None) (columns e) \<longrightarrow>
            convert_to_row e h r =
              Inr (encode_spec (exposed_name e h) (write_transform e h) (columns e) r))
       \<and> (\<forall>c. find (\<lambda>c. r (exposed_name e h c) = None) (columns e) = Some c \<longrightarrow>
            convert_to_row e h r = Inl (KeyError (exposed_name e h c)))
       \<and> (\<not> list_all (\<lambda>c. r (exposed_name e h c) \<noteq> None) (columns e) \<longrightarrow>
            (\<exists>c \<in> set (columns e). r (exposed_name e h c) = None
                \<and> convert_to_row e h r = Inl (KeyError (exposed_name e h c))))
       \<and> convert_to_row (e\<lparr>all_columns := ac\<rparr>) h r = convert_to_row e h r"
proof -
  note eq = convert_to_row_eq [OF assms, of r]
  have A: "list_all (\<lambda>c. r (exposed_name e h c) \<noteq> None) (columns e) \<longrightarrow>
            convert_to_row e h r =
              Inr (encode_spec (exposed_name e h) (write_transform e h) (columns e) r)"
  proof
    assume "list_all (\<lambda>c. r (exposed_name e h c) \<noteq> None) (columns e)"
    then have "find (\<lambda>c. r (exposed_name e h c) = None) (columns e) = None"
      by (simp add: find_None_iff list_all_iff)
    then show "convert_to_row e h r =
              Inr (encode_spec (exposed_name e h) (write_transform e h) (columns e) r)"
      by (simp add: eq)
  qed
  have B: "\<forall>c. find (\<lambda>c. r (exposed_name e h c) = None) (columns e) = Some c \<longrightarrow>
            convert_to_row e h r = Inl (KeyError (exposed_name e h c))"
    by (simp add: eq)
  have C: "\<not> list_all (\<lambda>c. r (exposed_name e h c) \<noteq> None) (columns e) \<longrightarrow>
            (\<exists>c \<in> set (columns e). r (exposed_name e h c) = None
                \<and> convert_to_row e h r = Inl (KeyError (exposed_name e h c)))"
  proof
    assume "\<not> list_all (\<lambda>c. r (exposed_name e h c) \<noteq> None) (columns e)"
    then have "find (\<lambda>c. r (exposed_name e h c) = None) (columns e) \<noteq> None"
      by (auto simp: find_None_iff list_all_iff)
    then obtain c where c: "find (\<lambda>c. r (exposed_name e h c) = None) (columns e) = Some c"
      by blast
    then have "c \<in> set (columns e) \<and> r (exposed_name e h c) = None"
      by (metis (mono_tags, lifting) find_Some_iff nth_mem)
    with c B show "\<exists>c \<in> set (columns e). r (exposed_name e h c) = None
                \<and> convert_to_row e h r = Inl (KeyError (exposed_name e h c))"
      by blast
  qed
  have D: "convert_to_row (e\<lparr>all_columns := ac\<rparr>) h r = convert_to_row e h r"
    by (simp add: convert_to_row_def convert_to_row_loop_all_columns)
  from A B C D show ?thesis by blast
qed

text \<open>
  The witness: a full record of the group entity is encoded in column order; a record without
  \<open>title\<close> raises \<open>KeyError\<close> on \<open>title\<close>.
\<close>

theorem C7_encode_writable_columns_in_order_witness:
  "convert_to_row group_entity group_heap [''name'' \<mapsto> PStr ''admins'', ''title'' \<mapsto> PStr ''Admins'']
     = Inr [PStr ''admins'', PStr ''Admins'']
   \<and> convert_to_row group_entity group_heap [''name'' \<mapsto> PStr ''admins'']
     = Inl (KeyError ''title'')"
proof -
  let ?r = "[''name'' \<mapsto> PStr ''admins'', ''title'' \<mapsto> PStr ''Admins'']"
  let ?r2 = "[''name'' \<mapsto> PStr ''admins'']"
  have a: "list_all (\<lambda>c. ?r (exposed_name group_entity group_heap c) \<noteq> None)
             (columns group_entity)"
    by (simp add: group_entity_simps group_exposed)
  have b: "find (\<lambda>c. ?r2 (exposed_name group_entity group_heap c) = None)
             (columns group_entity) = Some ''title''"
    by (simp add: group_entity_simps group_exposed)
  from C7_encode_writable_columns_in_order [OF group_layout group_filled, of ?r] a
  have "convert_to_row group_entity group_heap ?r =
      Inr (encode_spec (exposed_name group_entity group_heap)
             (write_transform group_entity group_heap) (columns group_entity) ?r)"
    by blast
  moreover from C7_encode_writable_columns_in_order [OF group_layout group_filled, of ?r2] b
  have "convert_to_row group_entity group_heap ?r2 =
      Inl (KeyError (exposed_name group_entity group_heap ''title''))"
    by blast
  ultimately show ?thesis
    by (simp add: encode_spec_def group_entity_simps group_exposed group_transforms)
qed

subsection \<open>The round trip\<close>

text \<open>
  The round trip in its general form: on a constructed entity whose transforms are all the
  identity and in which no read-only column has the exposed name of a writable column, for
  every record \<open>r\<close> whose keys are the exposed names of the writable columns,
  \<open>_convert_to_row\<close> succeeds, and decoding any row that holds the encoding at the writable
  positions (any id before, any read-only values after) gives a dict that, restricted to the
  keys of \<open>r\<close>, is \<open>r\<close>.
\<close>

lemma round_trip_without_shared_names:
  assumes l: "layout e" and f: "filled e h" and idt: "identity_transforms e h"
    and keys: "dom r = exposed_name e h ` set (columns e)"
    and disj: "exposed_name e h ` set (columns e) \<inter> exposed_name e h ` set (read_columns_of e) = {}"
    and ro: "length ro = length (read_columns_of e)"
  shows "\<exists>vals d. convert_to_row e h r = Inr vals
           \<and> length vals = length (columns e)
           \<and> convert_to_dict e h (idv # vals @ ro) = Inr d
           \<and> d |` dom r = r"
proof -
  let ?en = "exposed_name e h"
  let ?vals = "map (\<lambda>c. the (r (?en c))) (columns e)"
  let ?row = "idv # ?vals @ ro"
  let ?g = "\<lambda>(col, raw). (?en col, read_transform e h col raw)"
  have ac: "all_columns e = ''id'' # (columns e @ read_columns_of e)"
    using l by (simp add: layout_def)
  have rd: "\<And>c. c \<in> set (columns e) \<Longrightarrow> read_transform e h c = (\<lambda>x. x)"
    using idt layout_columns [OF l]
    by (auto simp: identity_transforms_def list_all_iff read_transform_def)
  have wr: "\<And>c. c \<in> set (columns e) \<Longrightarrow> write_transform e h c = (\<lambda>x. x)"
    using idt layout_columns [OF l]
    by (auto simp: identity_transforms_def list_all_iff write_transform_def)
  have present: "\<And>c. c \<in> set (columns e) \<Longrightarrow> r (?en c) \<noteq> None"
    using keys by (metis domIff imageI)
  have "find (\<lambda>c. r (?en c) = None) (columns e) = None"
    using present by (auto simp: find_None_iff)
  then have "convert_to_row e h r =
      Inr (encode_spec ?en (write_transform e h) (columns e) r)"
    by (simp add: convert_to_row_eq [OF l f])
  moreover have "encode_spec ?en (write_transform e h) (columns e) r = ?vals"
    by (simp add: encode_spec_def wr)
  ultimately have enc: "convert_to_row e h r = Inr ?vals" by simp
  have len: "length (all_columns e) \<le> length ?row"
    by (subst ac) (simp add: ro)
  let ?d = "decode_spec ?en (read_transform e h) (all_columns e) ?row"
  have dec: "convert_to_dict e h ?row = Inr ?d"
    by (rule convert_to_dict_decode_spec [OF f len])
  let ?mid = "map (\<lambda>c. (?en c, the (r (?en c)))) (columns e)"
  let ?tail = "map ?g (zip (read_columns_of e) ro)"
  have zmid: "map ?g (zip (columns e) ?vals) = ?mid"
    by (simp add: zip_map_same rd)
  have pairs: "map ?g (zip (all_columns e) ?row) =
      ([?g (''id'', idv)] @ ?mid) @ ?tail"
    by (subst ac) (simp add: zmid)
  have look: "?d k = r k" if k: "k \<in> dom r" for k
  proof -
    from k keys obtain c where c: "c \<in> set (columns e)" and kc: "k = ?en c" by auto
    have "k \<notin> ?en ` set (read_columns_of e)" using disj c kc by auto
    moreover have "fst ` set ?tail \<subseteq> ?en ` set (read_columns_of e)"
      by (auto dest: set_zip_leftD)
    ultimately have nt: "k \<notin> fst ` set ?tail" by blast
    have km: "k \<in> fst ` set ?mid" using c kc by force
    have "?d k = dict_of_pairs (([?g (''id'', idv)] @ ?mid) @ ?tail) k"
      by (simp only: decode_spec_def pairs)
    also have "\<dots> = dict_of_pairs ([?g (''id'', idv)] @ ?mid) k"
      by (rule dict_of_pairs_append_notin [OF nt])
    also have "\<dots> = dict_of_pairs ?mid k"
      by (rule dict_of_pairs_append_in [OF km])
    also have "\<dots> = Some (the (r k))"
      by (rule dict_of_pairs_const [OF km]) auto
    also have "\<dots> = r k" using k by auto
    finally show ?thesis .
  qed
  have "?d |` dom r = r"
  proof
    fix k show "(?d |` dom r) k = r k"
      by (cases "k \<in> dom r") (simp_all add: look restrict_map_def domIff)
  qed
  with enc dec show ?thesis by (intro exI [of _ ?vals] exI [of _ ?d]) simp
qed

text \<open>
  C2: on a constructed entity that satisfies the descriptor's invariant (the exposed names of
  \<open>all_columns\<close> are pairwise distinct) and whose read and write transforms are all the
  identity, for every record \<open>r\<close> whose keys are the exposed names of the writable columns:
  \<open>_convert_to_row\<close> succeeds with one value per writable column, and decoding any row
  whose writable-column positions hold that encoding (any id before, any read-only values
  after) yields a record that agrees with \<open>r\<close> on the exposed field of every writable
  column; restricted to the keys of \<open>r\<close> it is \<open>r\<close>.
\<close>

theorem C2_round_trip_on_writable_fields:
  assumes l: "layout e" and f: "filled e h" and idt: "identity_transforms e h"
    and keys: "dom r = exposed_name e h ` set (columns e)"
    and uniq: "distinct (map (exposed_name e h) (all_columns e))"
    and ro: "length ro = length (read_columns_of e)"
  shows "\<exists>vals d. convert_to_row e h r = Inr vals
           \<and> length vals = length (columns e)
           \<and> convert_to_dict e h (idv # vals @ ro) = Inr d
           \<and> d |` dom r = r
           \<and> (\<forall>c \<in> set (columns e). d (exposed_name e h c) = r (exposed_name e h c))"
proof -
  have ac: "all_columns e = ''id'' # (columns e @ read_columns_of e)"
    using l by (simp add: layout_def)
  have "distinct (map (exposed_name e h) (''id'' # (columns e @ read_columns_of e)))"
    using uniq by (simp only: ac)
  then have disj: "exposed_name e h ` set (columns e)
      \<inter> exposed_name e h ` set (read_columns_of e) = {}"
    by auto
  from round_trip_without_shared_names [OF l f idt keys disj ro, of idv]
  obtain vals d where v: "convert_to_row e h r = Inr vals"
    and n: "length vals = length (columns e)"
    and c: "convert_to_dict e h (idv # vals @ ro) = Inr d"
    and d: "d |` dom r = r"
    by blast
  have "\<forall>c \<in> set (columns e). d (exposed_name e h c) = r (exposed_name e h c)"
  proof
    fix c assume "c \<in> set (columns e)"
    then have "exposed_name e h c \<in> dom r" using keys by simp
    then have "(d |` dom r) (exposed_name e h c) = d (exposed_name e h c)" by simp
    then show "d (exposed_name e h c) = r (exposed_name e h c)" by (simp add: d)
  qed
  with v n c d show ?thesis by blast
qed

text \<open>
  The witness: a record of the group entity, with an id and two read-only values; the decoded
  record has the record's \<open>name\<close> and \<open>title\<close>.
\<close>

theorem C2_round_trip_on_writable_fields_witness:
  "layout group_entity \<and> filled group_entity group_heap
   \<and> identity_transforms group_entity group_heap
   \<and> distinct (map (exposed_name group_entity group_heap) (all_columns group_entity))
   \<and> (\<exists>vals d.
         convert_to_row group_entity group_heap
             [''name'' \<mapsto> PStr ''admins'', ''title'' \<mapsto> PStr ''Admins''] = Inr vals
       \<and> length vals = length (columns group_entity)
       \<and> convert_to_dict group_entity group_heap (PInt 7 # vals @ [PInt 100, PNone]) = Inr d
       \<and> d |` dom [''name'' \<mapsto> PStr ''admins'', ''title'' \<mapsto> PStr ''Admins'']
           = [''name'' \<mapsto> PStr ''admins'', ''title'' \<mapsto> PStr ''Admins'']
       \<and> d ''name'' = Some (PStr ''admins'') \<and> d ''title'' = Some (PStr ''Admins''))"
proof -
  let ?r = "[''name'' \<mapsto> PStr ''admins'', ''title'' \<mapsto> PStr ''Admins'']"
  have rc: "read_columns_of group_entity = [''created_at'', ''deleted_at'']"
    by (simp add: read_columns_of_def group_entity_simps)
  have keys: "dom ?r = exposed_name group_entity group_heap ` set (columns group_entity)"
    by (simp add: group_entity_simps group_exposed insert_commute)
  have uniq: "distinct (map (exposed_name group_entity group_heap) (all_columns group_entity))"
    by (simp add: group_entity_simps group_exposed)
  have ro: "length [PInt 100, PNone] = length (read_columns_of group_entity)"
    by (simp add: rc)
  from C2_round_trip_on_writable_fields [OF group_layout group_filled group_identity keys uniq ro, of "PInt 7"]
  obtain vals d where
    "convert_to_row group_entity group_heap ?r = Inr vals"
    "length vals = length (columns group_entity)"
    "convert_to_dict group_entity group_heap (PInt 7 # vals @ [PInt 100, PNone]) = Inr d"
    "d |` dom ?r = ?r"
    "\<forall>c \<in> set (columns group_entity).
       d (exposed_name group_entity group_heap c) = ?r (exposed_name group_entity group_heap c)"
    by blast
  moreover from this(5) have "d ''name'' = Some (PStr ''admins'') \<and> d ''title'' = Some (PStr ''Admins'')"
    by (simp add: group_entity_simps group_exposed)
  ultimately show ?thesis
    using group_layout group_filled group_identity uniq by blast
qed

subsection \<open>The operations and the route wrapper\<close>

lemma cur_execute_issued:
  "issued (snd (cur_execute conn sql ps w)) = issued w @ [(sql, ps)]"
  by (simp add: cur_execute_def Let_def split: sum.splits prod.splits)

lemma cur_execute_fst:
  "fst (cur_execute conn sql ps w) =
     (case conn (store w) sql ps of
        Inl msg \<Rightarrow> Inl (StoreError msg)
      | Inr (s', cur) \<Rightarrow> Inr cur)"
  by (simp add: cur_execute_def Let_def split: sum.splits prod.splits)


lemma get_fst:
  "db e = Some conn \<Longrightarrow>
     fst (get e h ident w) =
       (case conn (store w)
               (''SELECT '' @ all_fields e @ '' FROM '' @ table e @ '' WHERE id=%s'') [ident] of
          Inl msg \<Rightarrow> Inl (StoreError msg)
        | Inr (s', cur) \<Rightarrow>
            (case rows cur of
               [] \<Rightarrow> Inl (NotFound ident (table e))
             | row # rest \<Rightarrow>
                 (case convert_to_dict e h row of
                    Inl err \<Rightarrow> Inl err
                  | Inr d \<Rightarrow> Inr (RRecord d))))"
  using cur_execute_fst [of conn
      "''SELECT '' @ all_fields e @ '' FROM '' @ table e @ '' WHERE id=%s''" "[ident]" w]
  by (auto simp: get_def fetchone_def split: sum.splits prod.splits option.splits list.splits)




lemma delete_issued:
  "allow_delete e \<Longrightarrow> db e = Some conn \<Longrightarrow>
     issued (snd (delete e ident w)) =
       issued w @ [(''UPDATE '' @ table e @ '' SET deleted_at=CURRENT_TIMESTAMP WHERE id=%s'',
                    [ident])]"
  using cur_execute_issued [of conn
      "''UPDATE '' @ table e @ '' SET deleted_at=CURRENT_TIMESTAMP WHERE id=%s''" "[ident]" w]
  by (auto simp: delete_def split: sum.splits prod.splits option.splits)

lemma delete_fst:
  "allow_delete e \<Longrightarrow> db e = Some conn \<Longrightarrow>
     fst (delete e ident w) =
       (case conn (store w)
               (''UPDATE '' @ table e @ '' SET deleted_at=CURRENT_TIMESTAMP WHERE id=%s'')
               [ident] of
          Inl msg \<Rightarrow> Inl (StoreError msg)
        | Inr sc \<Rightarrow> Inr RNone)"
  using cur_execute_fst [of conn
      "''UPDATE '' @ table e @ '' SET deleted_at=CURRENT_TIMESTAMP WHERE id=%s''" "[ident]" w]
  by (auto simp: delete_def split: sum.splits prod.splits option.splits)

lemma put_fst:
  "db e = Some conn \<Longrightarrow> convert_to_row e h data = Inr vals \<Longrightarrow>
     fst (put e h data ident w) =
       (case conn (store w)
               (''UPDATE '' @ table e @ '' SET ''
                  @ join '','' (map (\<lambda>col. col @ ''=%s'') (columns e)) @ '' WHERE id=%s'')
               (vals @ [ident]) of
          Inl msg \<Rightarrow> Inl (StoreError msg)
        | Inr sc \<Rightarrow> Inr RNone)"
  using cur_execute_fst [of conn
      "''UPDATE '' @ table e @ '' SET ''
         @ join '','' (map (\<lambda>col. col @ ''=%s'') (columns e)) @ '' WHERE id=%s''"
      "vals @ [ident]" w]
  by (auto simp: put_def Let_def split: sum.splits prod.splits option.splits)

lemma put_issued:
  "db e = Some conn \<Longrightarrow> convert_to_row e h data = Inr vals \<Longrightarrow>
     issued (snd (put e h data ident w)) =
       issued w @ [(''UPDATE '' @ table e @ '' SET ''
                      @ join '','' (map (\<lambda>col. col @ ''=%s'') (columns e)) @ '' WHERE id=%s'',
                    vals @ [ident])]"
  using cur_execute_issued [of conn
      "''UPDATE '' @ table e @ '' SET ''
         @ join '','' (map (\<lambda>col. col @ ''=%s'') (columns e)) @ '' WHERE id=%s''"
      "vals @ [ident]" w]
  by (auto simp: put_def Let_def split: sum.splits prod.splits option.splits)

lemma post_encode_fails:
  "db e = Some conn \<Longrightarrow> convert_to_row e h data = Inl err \<Longrightarrow>
     post e h data w = (Inl err, w)"
  by (simp add: post_def)

lemma put_encode_fails:
  "db e = Some conn \<Longrightarrow> convert_to_row e h data = Inl err \<Longrightarrow>
     put e h data ident w = (Inl err, w)"
  by (simp add: put_def)

lemma route_helper_NoBody_not_found:
  "fst (g w) = Inl (NotFound i t) \<Longrightarrow>
     fst (route_helper (NoBody g) status body w) =
       Inr \<lparr>status_code = 404, body_status = ''not found'', body_data = None\<rparr>"
  by (cases "g w") (simp add: route_helper_def)

lemma route_helper_NoBody_none:
  "fst (g w) = Inr RNone \<Longrightarrow>
     fst (route_helper (NoBody g) status body w) =
       Inr \<lparr>status_code = 200, body_status = status, body_data = None\<rparr>"
  by (cases "g w") (simp add: route_helper_def)

lemma route_helper_WithBody_none:
  "fst (g data w) = Inr RNone \<Longrightarrow>
     fst (route_helper (WithBody g) status (Some data) w) =
       Inr \<lparr>status_code = 200, body_status = status, body_data = None\<rparr>"
  by (cases "g data w") (simp add: route_helper_def)

lemma route_helper_WithBody_key_error:
  "g data w = (Inl (KeyError k), w') \<Longrightarrow>
     route_helper (WithBody g) status (Some data) w = (Inl (KeyError k), w')"
  by (simp add: route_helper_def)

lemma bind_db_simps:
  "table (bind_db conn e) = table e"
  "columns (bind_db conn e) = columns e"
  "all_columns (bind_db conn e) = all_columns e"
  "column_name2exposed_name (bind_db conn e) = column_name2exposed_name e"
  "read_transforms (bind_db conn e) = read_transforms e"
  "write_transforms (bind_db conn e) = write_transforms e"
  "allow_delete (bind_db conn e) = allow_delete e"
  "db (bind_db conn e) = Some conn"
  "fields_str (bind_db conn e) = fields_str e"
  "all_fields (bind_db conn e) = all_fields e"
  by (simp_all add: bind_db_def)


lemma group_record_encoded:
  "convert_to_row (bind_db conn group_entity) group_heap
       [''name'' \<mapsto> PStr ''admins'', ''title'' \<mapsto> PStr ''Admins'']
     = Inr [PStr ''admins'', PStr ''Admins'']"
  by (simp add: convert_to_row_def getitem_def bind_db_simps group_entity_simps
      group_heap_names group_heap_funs)

lemma group_empty_record_encoded:
  "convert_to_row (bind_db conn group_entity) group_heap Map.empty = Inl (KeyError ''name'')"
  by (simp add: convert_to_row_def getitem_def bind_db_simps group_entity_simps
      group_heap_names group_heap_funs)

lemma cur_execute_ok:
  "conn (store w) sql ps = Inr (s', cur) \<Longrightarrow>
     cur_execute conn sql ps w = (Inr cur, \<lparr>store = s', issued = issued w @ [(sql, ps)]\<rparr>)"
  by (simp add: cur_execute_def Let_def)

lemma cur_execute_failed:
  "conn (store w) sql ps = Inl msg \<Longrightarrow>
     cur_execute conn sql ps w =
       (Inl (StoreError msg), \<lparr>store = store w, issued = issued w @ [(sql, ps)]\<rparr>)"
  by (simp add: cur_execute_def Let_def)

lemma delete_snd:
  "allow_delete e \<Longrightarrow> db e = Some conn \<Longrightarrow>
     snd (delete e ident w) =
       snd (cur_execute conn
              (''UPDATE '' @ table e @ '' SET deleted_at=CURRENT_TIMESTAMP WHERE id=%s'')
              [ident] w)"
  by (simp add: delete_def split: prod.splits sum.splits)

lemma logged_group_entity_simps:
  "table logged_group_entity = ''membership_group''"
  "columns logged_group_entity = [''name'', ''title'']"
  "all_columns logged_group_entity = [''id'', ''name'', ''title'', ''created_at'', ''deleted_at'']"
  "column_name2exposed_name logged_group_entity = 0"
  "read_transforms logged_group_entity = 0"
  "write_transforms logged_group_entity = 1"
  "allow_delete logged_group_entity = True"
  "db logged_group_entity = Some recording_store"
  "all_fields logged_group_entity = ''id,name,title,created_at,deleted_at''"
  by (simp_all add: logged_group_entity_def bind_db_simps Entity_init_fields
      default_exposed_column_names_def default_read_transforms_def default_write_transforms_def)

lemma logged_group_record_encoded:
  "convert_to_row logged_group_entity group_heap
       [''name'' \<mapsto> PStr ''admins'', ''title'' \<mapsto> PStr ''Admins'']
     = Inr [PStr ''admins'', PStr ''Admins'']"
  by (simp add: convert_to_row_def getitem_def logged_group_entity_simps
      group_heap_names group_heap_funs)

subsection \<open>Reading: get and list\<close>






subsection \<open>Writing: delete, put and post\<close>

text \<open>
  C5: for every id, \<open>delete\<close> on an entity with \<open>allow_delete\<close> false returns the
  \<open>MethodNotAllowed\<close> object and leaves the world as it was: no statement is issued and the
  store is untouched. On an entity with \<open>allow_delete\<close> true (bound to a store) it hands the
  store exactly one statement, the UPDATE that sets \<open>deleted_at\<close> to \<open>CURRENT_TIMESTAMP\<close> for
  that id, with the id as its only bound value: the world after \<open>delete\<close> is the world after
  that one \<open>cur.execute\<close>. When the store accepts the statement, \<open>delete\<close> returns \<open>None\<close>
  and the store is in the state the connection gives for that UPDATE; when the store raises,
  the exception propagates and the store is unchanged. No DELETE statement is ever issued.
\<close>

theorem C5_delete_is_refused_or_one_soft_delete:
  "(\<not> allow_delete e \<longrightarrow> delete e ident w = (Inr RMethodNotAllowed, w))
   \<and> (allow_delete e \<and> db e = Some conn \<longrightarrow>
        issued (snd (delete e ident w)) =
          issued w @ [(''UPDATE '' @ table e @ '' SET deleted_at=CURRENT_TIMESTAMP WHERE id=%s'',
                       [ident])]
      \<and> snd (delete e ident w) =
          snd (cur_execute conn
                 (''UPDATE '' @ table e @ '' SET deleted_at=CURRENT_TIMESTAMP WHERE id=%s'')
                 [ident] w)
      \<and> (\<forall>s' cur.
            conn (store w)
                 (''UPDATE '' @ table e @ '' SET deleted_at=CURRENT_TIMESTAMP WHERE id=%s'')
                 [ident] = Inr (s', cur) \<longrightarrow>
            delete e ident w =
              (Inr RNone,
               \<lparr>store = s',
                issued = issued w @
                  [(''UPDATE '' @ table e @ '' SET deleted_at=CURRENT_TIMESTAMP WHERE id=%s'',
                    [ident])]\<rparr>))
      \<and> (\<forall>msg.
            conn (store w)
                 (''UPDATE '' @ table e @ '' SET deleted_at=CURRENT_TIMESTAMP WHERE id=%s'')
                 [ident] = Inl msg \<longrightarrow>
            delete e ident w =
              (Inl (StoreError msg),
               \<lparr>store = store w,
                issued = issued w @
                  [(''UPDATE '' @ table e @ '' SET deleted_at=CURRENT_TIMESTAMP WHERE id=%s'',
                    [ident])]\<rparr>)))"
proof (intro conjI impI allI)
  assume "\<not> allow_delete e"
  then show "delete e ident w = (Inr RMethodNotAllowed, w)" by (simp add: delete_def)
next
  assume "allow_delete e \<and> db e = Some conn"
  then show "issued (snd (delete e ident w)) =
          issued w @ [(''UPDATE '' @ table e @ '' SET deleted_at=CURRENT_TIMESTAMP WHERE id=%s'',
                       [ident])]"
    by (simp add: delete_issued)
next
  assume "allow_delete e \<and> db e = Some conn"
  then show "snd (delete e ident w) =
          snd (cur_execute conn
                 (''UPDATE '' @ table e @ '' SET deleted_at=CURRENT_TIMESTAMP WHERE id=%s'')
                 [ident] w)"
    by (simp add: delete_snd)
next
  fix s' cur
  assume a: "allow_delete e \<and> db e = Some conn"
    and c: "conn (store w)
                 (''UPDATE '' @ table e @ '' SET deleted_at=CURRENT_TIMESTAMP WHERE id=%s'')
                 [ident] = Inr (s', cur)"
  show "delete e ident w =
              (Inr RNone,
               \<lparr>store = s',
                issued = issued w @
                  [(''UPDATE '' @ table e @ '' SET deleted_at=CURRENT_TIMESTAMP WHERE id=%s'',
                    [ident])]\<rparr>)"
    using a unfolding delete_def by (simp add: cur_execute_ok [where conn = conn and w = w, OF c, simplified])
next
  fix msg
  assume a: "allow_delete e \<and> db e = Some conn"
    and c: "conn (store w)
                 (''UPDATE '' @ table e @ '' SET deleted_at=CURRENT_TIMESTAMP WHERE id=%s'')
                 [ident] = Inl msg"
  show "delete e ident w =
              (Inl (StoreError msg),
               \<lparr>store = store w,
                issued = issued w @
                  [(''UPDATE '' @ table e @ '' SET deleted_at=CURRENT_TIMESTAMP WHERE id=%s'',
                    [ident])]\<rparr>)"
    using a unfolding delete_def by (simp add: cur_execute_failed [where conn = conn and w = w, OF c, simplified])
qed

text \<open>
  The witness, on the store that keeps what it receives: with \<open>allow_delete\<close> false the
  store has received nothing; with \<open>allow_delete\<close> true it has received the one UPDATE.
\<close>

theorem C5_delete_is_refused_or_one_soft_delete_witness:
  "delete (logged_group_entity\<lparr>allow_delete := False\<rparr>) (PInt 7) logged_world0
     = (Inr RMethodNotAllowed, logged_world0)
   \<and> delete logged_group_entity (PInt 7) logged_world0
     = (Inr RNone,
        \<lparr>store = [(''UPDATE membership_group SET deleted_at=CURRENT_TIMESTAMP WHERE id=%s'',
                    [PInt 7])],
         issued = [(''UPDATE membership_group SET deleted_at=CURRENT_TIMESTAMP WHERE id=%s'',
                    [PInt 7])]\<rparr>)"
proof -
  let ?e = "logged_group_entity"
  let ?stmt = "''UPDATE '' @ table ?e @ '' SET deleted_at=CURRENT_TIMESTAMP WHERE id=%s''"
  note t1 = C5_delete_is_refused_or_one_soft_delete [of "?e\<lparr>allow_delete := False\<rparr>" "PInt 7" logged_world0 recording_store]
  note t2 = C5_delete_is_refused_or_one_soft_delete [of ?e "PInt 7" logged_world0 recording_store]
  have a: "allow_delete ?e \<and> db ?e = Some recording_store"
    by (simp add: logged_group_entity_simps)
  have c: "recording_store (store logged_world0) ?stmt [PInt 7]
      = Inr (store logged_world0 @ [(?stmt, [PInt 7])], \<lparr>rows = [], lastrowid = PInt 0\<rparr>)"
    by (simp add: recording_store_def)
  have "delete (?e\<lparr>allow_delete := False\<rparr>) (PInt 7) logged_world0
      = (Inr RMethodNotAllowed, logged_world0)"
    using t1 by simp
  moreover from t2 a c have "delete ?e (PInt 7) logged_world0 =
      (Inr RNone,
       \<lparr>store = store logged_world0 @ [(?stmt, [PInt 7])],
        issued = issued logged_world0 @ [(?stmt, [PInt 7])]\<rparr>)"
    by blast
  ultimately show ?thesis
    by (simp add: logged_group_entity_simps logged_world0_def)
qed

text \<open>
  C3 as stated fails for \<open>put\<close> and \<open>delete\<close>. The store holds no row at all, so no row has
  id 7: \<open>get\<close> answers 404 with status \<open>not found\<close>, but \<open>put\<close> and \<open>delete\<close> answer 200
  with status \<open>updated\<close> and \<open>deleted\<close>. Neither looks at the number of rows its UPDATE
  matched.
\<close>

theorem C3_put_and_delete_on_missing_id_succeed:
  "fst (route_helper (NoBody (get (bind_db empty_store group_entity) group_heap (PInt 7)))
          ''ok'' None world0)
     = Inr \<lparr>status_code = 404, body_status = ''not found'', body_data = None\<rparr>
   \<and> fst (route_helper
            (WithBody (\<lambda>d. put (bind_db empty_store group_entity) group_heap d (PInt 7)))
            ''updated'' (Some [''name'' \<mapsto> PStr ''admins'', ''title'' \<mapsto> PStr ''Admins''])
            world0)
     = Inr \<lparr>status_code = 200, body_status = ''updated'', body_data = None\<rparr>
   \<and> fst (route_helper (NoBody (delete (bind_db empty_store group_entity) (PInt 7)))
            ''deleted'' None world0)
     = Inr \<lparr>status_code = 200, body_status = ''deleted'', body_data = None\<rparr>"
proof -
  let ?e = "bind_db empty_store group_entity"
  have d: "db ?e = Some empty_store" by (simp add: bind_db_simps)
  have ad: "allow_delete ?e" by (simp add: bind_db_simps group_entity_simps)
  have g: "fst (get ?e group_heap (PInt 7) world0) = Inl (NotFound (PInt 7) (table ?e))"
    by (simp add: get_fst [OF d] empty_store_def)
  have p: "fst (put ?e group_heap [''name'' \<mapsto> PStr ''admins'', ''title'' \<mapsto> PStr ''Admins'']
                  (PInt 7) world0) = Inr RNone"
    by (simp add: put_fst [OF d group_record_encoded] empty_store_def)
  have x: "fst (delete ?e (PInt 7) world0) = Inr RNone"
    by (simp add: delete_fst [OF ad d] empty_store_def)
  show ?thesis
    by (simp only: route_helper_NoBody_not_found
          [where g = "get ?e group_heap (PInt 7)" and w = world0, OF g]
        route_helper_NoBody_none [where g = "delete ?e (PInt 7)" and w = world0, OF x]
        route_helper_WithBody_none
          [where g = "\<lambda>d. put ?e group_heap d (PInt 7)" and w = world0, OF p] simp_thms)
qed

text \<open>
  C3, amended: on an entity bound to a store, for every id with no matching row (the store
  answers the SELECT with no row), \<open>get\<close> behind \<open>route_helper\<close> produces the response 404 with
  body \<open>{"status": "not found"}\<close>, after its one SELECT. \<open>put\<close> with a record that has the
  exposed field of every writable column, and \<open>delete\<close> on an entity with \<open>allow_delete\<close>
  true, do not check that a row matched: each hands the store its one UPDATE (for \<open>put\<close> the
  encoded values followed by the id, for \<open>delete\<close> the id) and, whenever the store accepts
  it, whatever it matched, produces the response 200 with status \<open>updated\<close> or \<open>deleted\<close> and
  no data. In all three cases the world afterwards is the store's answer state with exactly
  that statement added to the log.
\<close>

theorem C3_not_found_only_from_get:
  assumes "db e = Some conn"
  shows "(\<forall>s' cur.
            conn (store w) (''SELECT '' @ all_fields e @ '' FROM '' @ table e @ '' WHERE id=%s'')
                 [ident] = Inr (s', cur) \<and> rows cur = [] \<longrightarrow>
            route_helper (NoBody (get e h ident)) ''ok'' body w =
              (Inr \<lparr>status_code = 404, body_status = ''not found'', body_data = None\<rparr>,
               \<lparr>store = s',
                issued = issued w @
                  [(''SELECT '' @ all_fields e @ '' FROM '' @ table e @ '' WHERE id=%s'',
                    [ident])]\<rparr>))
       \<and> (\<forall>vals s' cur.
            convert_to_row e h data = Inr vals \<and>
            conn (store w)
                 (''UPDATE '' @ table e @ '' SET ''
                    @ join '','' (map (\<lambda>col. col @ ''=%s'') (columns e)) @ '' WHERE id=%s'')
                 (vals @ [ident]) = Inr (s', cur) \<longrightarrow>
            route_helper (WithBody (\<lambda>d. put e h d ident)) ''updated'' (Some data) w =
              (Inr \<lparr>status_code = 200, body_status = ''updated'', body_data = None\<rparr>,
               \<lparr>store = s',
                issued = issued w @
                  [(''UPDATE '' @ table e @ '' SET ''
                      @ join '','' (map (\<lambda>col. col @ ''=%s'') (columns e)) @ '' WHERE id=%s'',
                    vals @ [ident])]\<rparr>))
       \<and> (\<forall>s' cur.
            allow_delete e \<and>
            conn (store w)
                 (''UPDATE '' @ table e @ '' SET deleted_at=CURRENT_TIMESTAMP WHERE id=%s'')
                 [ident] = Inr (s', cur) \<longrightarrow>
            route_helper (NoBody (delete e ident)) ''deleted'' body w =
              (Inr \<lparr>status_code = 200, body_status = ''deleted'', body_data = None\<rparr>,
               \<lparr>store = s',
                issued = issued w @
                  [(''UPDATE '' @ table e @ '' SET deleted_at=CURRENT_TIMESTAMP WHERE id=%s'',
                    [ident])]\<rparr>))"
proof (intro conjI allI impI)
  fix s' cur
  assume a: "conn (store w) (''SELECT '' @ all_fields e @ '' FROM '' @ table e @ '' WHERE id=%s'')
                 [ident] = Inr (s', cur) \<and> rows cur = []"
  then have c: "conn (store w)
      (''SELECT '' @ all_fields e @ '' FROM '' @ table e @ '' WHERE id=%s'') [ident]
      = Inr (s', cur)" and r: "rows cur = []"
    by simp_all
  have "get e h ident w =
      (Inl (NotFound ident (table e)),
       \<lparr>store = s',
        issued = issued w @
          [(''SELECT '' @ all_fields e @ '' FROM '' @ table e @ '' WHERE id=%s'', [ident])]\<rparr>)"
    using assms r unfolding get_def by (simp add: cur_execute_ok [where conn = conn and w = w, OF c, simplified] fetchone_def)
  then show "route_helper (NoBody (get e h ident)) ''ok'' body w =
              (Inr \<lparr>status_code = 404, body_status = ''not found'', body_data = None\<rparr>,
               \<lparr>store = s',
                issued = issued w @
                  [(''SELECT '' @ all_fields e @ '' FROM '' @ table e @ '' WHERE id=%s'',
                    [ident])]\<rparr>)"
    by (simp add: route_helper_def)
next
  fix vals s' cur
  assume a: "convert_to_row e h data = Inr vals \<and>
            conn (store w)
                 (''UPDATE '' @ table e @ '' SET ''
                    @ join '','' (map (\<lambda>col. col @ ''=%s'') (columns e)) @ '' WHERE id=%s'')
                 (vals @ [ident]) = Inr (s', cur)"
  then have v: "convert_to_row e h data = Inr vals"
    and c: "conn (store w)
                 (''UPDATE '' @ table e @ '' SET ''
                    @ join '','' (map (\<lambda>col. col @ ''=%s'') (columns e)) @ '' WHERE id=%s'')
                 (vals @ [ident]) = Inr (s', cur)"
    by simp_all
  have "put e h data ident w =
      (Inr RNone,
       \<lparr>store = s',
        issued = issued w @
          [(''UPDATE '' @ table e @ '' SET ''
              @ join '','' (map (\<lambda>col. col @ ''=%s'') (columns e)) @ '' WHERE id=%s'',
            vals @ [ident])]\<rparr>)"
    using assms v unfolding put_def Let_def by (simp add: cur_execute_ok [where conn = conn and w = w, OF c, simplified])
  then show "route_helper (WithBody (\<lambda>d. put e h d ident)) ''updated'' (Some data) w =
              (Inr \<lparr>status_code = 200, body_status = ''updated'', body_data = None\<rparr>,
               \<lparr>store = s',
                issued = issued w @
                  [(''UPDATE '' @ table e @ '' SET ''
                      @ join '','' (map (\<lambda>col. col @ ''=%s'') (columns e)) @ '' WHERE id=%s'',
                    vals @ [ident])]\<rparr>)"
    by (simp add: route_helper_def)
next
  fix s' cur
  assume a: "allow_delete e \<and>
            conn (store w)
                 (''UPDATE '' @ table e @ '' SET deleted_at=CURRENT_TIMESTAMP WHERE id=%s'')
                 [ident] = Inr (s', cur)"
  then have ad: "allow_delete e"
    and c: "conn (store w)
                 (''UPDATE '' @ table e @ '' SET deleted_at=CURRENT_TIMESTAMP WHERE id=%s'')
                 [ident] = Inr (s', cur)"
    by simp_all
  have "delete e ident w =
      (Inr RNone,
       \<lparr>store = s',
        issued = issued w @
          [(''UPDATE '' @ table e @ '' SET deleted_at=CURRENT_TIMESTAMP WHERE id=%s'',
            [ident])]\<rparr>)"
    using assms ad unfolding delete_def by (simp add: cur_execute_ok [where conn = conn and w = w, OF c, simplified])
  then show "route_helper (NoBody (delete e ident)) ''deleted'' body w =
              (Inr \<lparr>status_code = 200, body_status = ''deleted'', body_data = None\<rparr>,
               \<lparr>store = s',
                issued = issued w @
                  [(''UPDATE '' @ table e @ '' SET deleted_at=CURRENT_TIMESTAMP WHERE id=%s'',
                    [ident])]\<rparr>)"
    by (simp add: route_helper_def)
qed

text \<open>
  The witness: the three operations on id 9 of the group entity, on the store that has no
  rows and keeps what it receives.
\<close>

theorem C3_not_found_only_from_get_witness:
  "route_helper (NoBody (get logged_group_entity group_heap (PInt 9))) ''ok'' None logged_world0
     = (Inr \<lparr>status_code = 404, body_status = ''not found'', body_data = None\<rparr>,
        \<lparr>store = [(''SELECT id,name,title,created_at,deleted_at FROM membership_group WHERE id=%s'',
                    [PInt 9])],
         issued = [(''SELECT id,name,title,created_at,deleted_at FROM membership_group WHERE id=%s'',
                    [PInt 9])]\<rparr>)
   \<and> route_helper (WithBody (\<lambda>d. put logged_group_entity group_heap d (PInt 9))) ''updated''
        (Some [''name'' \<mapsto> PStr ''admins'', ''title'' \<mapsto> PStr ''Admins'']) logged_world0
     = (Inr \<lparr>status_code = 200, body_status = ''updated'', body_data = None\<rparr>,
        \<lparr>store = [(''UPDATE membership_group SET name=%s,title=%s WHERE id=%s'',
                    [PStr ''admins'', PStr ''Admins'', PInt 9])],
         issued = [(''UPDATE membership_group SET name=%s,title=%s WHERE id=%s'',
                    [PStr ''admins'', PStr ''Admins'', PInt 9])]\<rparr>)
   \<and> route_helper (NoBody (delete logged_group_entity (PInt 9))) ''deleted'' None logged_world0
     = (Inr \<lparr>status_code = 200, body_status = ''deleted'', body_data = None\<rparr>,
        \<lparr>store = [(''UPDATE membership_group SET deleted_at=CURRENT_TIMESTAMP WHERE id=%s'',
                    [PInt 9])],
         issued = [(''UPDATE membership_group SET deleted_at=CURRENT_TIMESTAMP WHERE id=%s'',
                    [PInt 9])]\<rparr>)"
proof -
  let ?e = "logged_group_entity"
  let ?data = "[''name'' \<mapsto> PStr ''admins'', ''title'' \<mapsto> PStr ''Admins'']"
  let ?sel = "''SELECT '' @ all_fields ?e @ '' FROM '' @ table ?e @ '' WHERE id=%s''"
  let ?upd = "''UPDATE '' @ table ?e @ '' SET ''
                 @ join '','' (map (\<lambda>col. col @ ''=%s'') (columns ?e)) @ '' WHERE id=%s''"
  let ?del = "''UPDATE '' @ table ?e @ '' SET deleted_at=CURRENT_TIMESTAMP WHERE id=%s''"
  let ?cur = "\<lparr>rows = [], lastrowid = PInt 0\<rparr> :: pyval cursor"
  have d: "db ?e = Some recording_store" by (simp add: logged_group_entity_simps)
  note t = C3_not_found_only_from_get [OF d, where w = logged_world0 and h = group_heap
      and ident = "PInt 9" and body = None and data = ?data]
  have s1: "recording_store (store logged_world0) ?sel [PInt 9]
      = Inr (store logged_world0 @ [(?sel, [PInt 9])], ?cur) \<and> rows ?cur = []"
    by (simp add: recording_store_def)
  have s2: "convert_to_row ?e group_heap ?data = Inr [PStr ''admins'', PStr ''Admins'']
      \<and> recording_store (store logged_world0) ?upd ([PStr ''admins'', PStr ''Admins''] @ [PInt 9])
        = Inr (store logged_world0
                 @ [(?upd, [PStr ''admins'', PStr ''Admins''] @ [PInt 9])], ?cur)"
    by (simp add: logged_group_record_encoded recording_store_def)
  have s3: "allow_delete ?e \<and> recording_store (store logged_world0) ?del [PInt 9]
        = Inr (store logged_world0 @ [(?del, [PInt 9])], ?cur)"
    by (simp add: logged_group_entity_simps recording_store_def)
  from t s1 have a: "route_helper (NoBody (get ?e group_heap (PInt 9))) ''ok'' None logged_world0
     = (Inr \<lparr>status_code = 404, body_status = ''not found'', body_data = None\<rparr>,
        \<lparr>store = store logged_world0 @ [(?sel, [PInt 9])],
         issued = issued logged_world0 @ [(?sel, [PInt 9])]\<rparr>)"
    by blast
  from t s2 have b: "route_helper (WithBody (\<lambda>d. put ?e group_heap d (PInt 9))) ''updated''
        (Some ?data) logged_world0
     = (Inr \<lparr>status_code = 200, body_status = ''updated'', body_data = None\<rparr>,
        \<lparr>store = store logged_world0
                  @ [(?upd, [PStr ''admins'', PStr ''Admins''] @ [PInt 9])],
         issued = issued logged_world0
                  @ [(?upd, [PStr ''admins'', PStr ''Admins''] @ [PInt 9])]\<rparr>)"
    by blast
  from t s3 have c: "route_helper (NoBody (delete ?e (PInt 9))) ''deleted'' None logged_world0
     = (Inr \<lparr>status_code = 200, body_status = ''deleted'', body_data = None\<rparr>,
        \<lparr>store = store logged_world0 @ [(?del, [PInt 9])],
         issued = issued logged_world0 @ [(?del, [PInt 9])]\<rparr>)"
    by blast
  have a': "route_helper (NoBody (get ?e group_heap (PInt 9))) ''ok'' None logged_world0
     = (Inr \<lparr>status_code = 404, body_status = ''not found'', body_data = None\<rparr>,
        \<lparr>store = [(''SELECT id,name,title,created_at,deleted_at FROM membership_group WHERE id=%s'',
                    [PInt 9])],
         issued = [(''SELECT id,name,title,created_at,deleted_at FROM membership_group WHERE id=%s'',
                    [PInt 9])]\<rparr>)"
    unfolding a by (simp add: logged_group_entity_simps logged_world0_def)
  have b': "route_helper (WithBody (\<lambda>d. put ?e group_heap d (PInt 9))) ''updated''
        (Some ?data) logged_world0
     = (Inr \<lparr>status_code = 200, body_status = ''updated'', body_data = None\<rparr>,
        \<lparr>store = [(''UPDATE membership_group SET name=%s,title=%s WHERE id=%s'',
                    [PStr ''admins'', PStr ''Admins'', PInt 9])],
         issued = [(''UPDATE membership_group SET name=%s,title=%s WHERE id=%s'',
                    [PStr ''admins'', PStr ''Admins'', PInt 9])]\<rparr>)"
    unfolding b by (simp add: logged_group_entity_simps logged_world0_def)
  have c': "route_helper (NoBody (delete ?e (PInt 9))) ''deleted'' None logged_world0
     = (Inr \<lparr>status_code = 200, body_status = ''deleted'', body_data = None\<rparr>,
        \<lparr>store = [(''UPDATE membership_group SET deleted_at=CURRENT_TIMESTAMP WHERE id=%s'',
                    [PInt 9])],
         issued = [(''UPDATE membership_group SET deleted_at=CURRENT_TIMESTAMP WHERE id=%s'',
                    [PInt 9])]\<rparr>)"
    unfolding c by (simp add: logged_group_entity_simps logged_world0_def)
  from a' b' c' show ?thesis by blast
qed

text \<open>
  C4 holds in part only. \<^verbatim>\<open>post({})\<close> on the group entity, which has the writable
  columns \<open>name\<close> and \<open>title\<close>: \<open>_convert_to_row\<close> raises \<open>KeyError('name')\<close>,
  \<open>route_helper\<close> catches it only to print it and raise it again, and no statement has been
  issued. The outcome is the exception, not a response or an \<open>abort\<close> with code 400 or 422.
\<close>

theorem C4_post_without_required_field_raises_key_error:
  "route_helper (WithBody (post (bind_db empty_store group_entity) group_heap)) ''created''
       (Some Map.empty) world0
     = (Inl (KeyError ''name''), world0)
   \<and> \<not> client_error_400_422
         (fst (route_helper (WithBody (post (bind_db empty_store group_entity) group_heap))
                 ''created'' (Some Map.empty) world0))
   \<and> issued (snd (route_helper (WithBody (post (bind_db empty_store group_entity) group_heap))
                 ''created'' (Some Map.empty) world0)) = []"
proof -
  let ?e = "bind_db empty_store group_entity"
  have d: "db ?e = Some empty_store" by (simp add: bind_db_simps)
  have p: "post ?e group_heap Map.empty world0 = (Inl (KeyError ''name''), world0)"
    by (rule post_encode_fails [OF d group_empty_record_encoded])
  have r: "route_helper (WithBody (post ?e group_heap)) ''created'' (Some Map.empty) world0
     = (Inl (KeyError ''name''), world0)"
    by (rule route_helper_WithBody_key_error
        [where g = "post ?e group_heap" and data = Map.empty and w = world0, OF p])
  show ?thesis unfolding r by (simp add: world0_def)
qed

end
